theory Spec2Isabelle
  imports Complex_Main "HOL-Library.Log_Nat" "HOL-Library.AList" "HOL-Library.Char_ord"
    "HOL-Library.List_Lexorder"
begin

section \<open>Python values used by abundatron.py\<close>

subsection \<open>Floats\<close>

text \<open>
  A Python float is an IEEE-754 binary64 value.  The finite ones are carried as the
  rational they denote; the two infinities and NaN are constructors of their own.  The
  sign of a zero is not represented: no function below looks at it.
\<close>

datatype pyfloat = Finite rat | PosInf | NegInf | NaN

definition round_half_even :: "rat \<Rightarrow> int" where
  "round_half_even r =
     (let f = \<lfloor>r\<rfloor>; d = r - of_int f
      in if d < 1 / 2 then f else if 1 / 2 < d then f + 1
         else if even f then f else f + 1)"

definition ilog2 :: "rat \<Rightarrow> int" where
  \<comment> \<open>the integer part of the binary logarithm of a positive rational\<close>
  "ilog2 a =
     (let (p, q) = quotient_of a; d = bitlen p - bitlen q
      in if 2 powi d \<le> a then d else d - 1)"

definition round_double :: "rat \<Rightarrow> pyfloat" where
  \<comment> \<open>round to nearest, ties to even, 53 bits of precision, exponents from -1022 up;
      a result of magnitude \<open>2 ^ 1024\<close> or more overflows to an infinity\<close>
  "round_double x =
     (if x = 0 then Finite 0
      else let a = \<bar>x\<bar>; e = max (ilog2 a) (- 1022); q = 2 powi (e - 52);
               m = round_half_even (a / q)
           in if 1024 \<le> e \<or> (e = 1023 \<and> m = 2 ^ 53)
              then (if 0 < x then PosInf else NegInf)
              else Finite (sgn x * (of_int m * q)))"

definition isnan :: "pyfloat \<Rightarrow> bool" where
  "isnan x = (x = NaN)"

fun fsub :: "pyfloat \<Rightarrow> pyfloat \<Rightarrow> pyfloat" where
  "fsub NaN _ = NaN"
| "fsub _ NaN = NaN"
| "fsub (Finite a) (Finite b) = round_double (a - b)"
| "fsub (Finite a) PosInf = NegInf"
| "fsub (Finite a) NegInf = PosInf"
| "fsub PosInf PosInf = NaN"
| "fsub PosInf _ = PosInf"
| "fsub NegInf NegInf = NaN"
| "fsub NegInf _ = NegInf"

fun fabs :: "pyfloat \<Rightarrow> pyfloat" where
  "fabs (Finite a) = Finite \<bar>a\<bar>"
| "fabs PosInf = PosInf"
| "fabs NegInf = PosInf"
| "fabs NaN = NaN"

fun flt :: "pyfloat \<Rightarrow> pyfloat \<Rightarrow> bool" where
  \<comment> \<open>Python's \<open><\<close> on floats: every comparison with NaN is False\<close>
  "flt NaN _ = False"
| "flt _ NaN = False"
| "flt (Finite a) (Finite b) = (a < b)"
| "flt (Finite a) PosInf = True"
| "flt (Finite a) NegInf = False"
| "flt PosInf _ = False"
| "flt NegInf NegInf = False"
| "flt NegInf _ = True"

fun fle :: "pyfloat \<Rightarrow> pyfloat \<Rightarrow> bool" where
  \<comment> \<open>Python's \<open><=\<close> on floats\<close>
  "fle NaN _ = False"
| "fle _ NaN = False"
| "fle (Finite a) (Finite b) = (a \<le> b)"
| "fle (Finite a) PosInf = True"
| "fle (Finite a) NegInf = False"
| "fle PosInf PosInf = True"
| "fle PosInf _ = False"
| "fle NegInf _ = True"

subsection \<open>Strings\<close>

text \<open>
  A Python \<open>str\<close> is a sequence of code points.  The model is a \<open>string\<close> whose characters
  are the code points below 256; in that range the decimal digits that \<open>\d\<close>, \<open>int\<close> and
  \<open>float\<close> accept are \<open>0\<close> to \<open>9\<close>.
\<close>

definition is_digit :: "char \<Rightarrow> bool" where
  "is_digit c = (c \<in> set ''0123456789'')"

definition is_space :: "char \<Rightarrow> bool" where
  \<comment> \<open>\<open>str.isspace\<close>, the characters \<open>str.strip()\<close> removes\<close>
  "is_space c = (c \<in> set [CHR 0x09, CHR 0x0A, CHR 0x0B, CHR 0x0C, CHR 0x0D, CHR 0x1C, CHR 0x1D,
                            CHR 0x1E, CHR 0x1F, CHR 0x20, CHR 0x85, CHR 0xA0])"

definition is_linebreak :: "char \<Rightarrow> bool" where
  \<comment> \<open>the line boundaries of \<open>str.splitlines()\<close>\<close>
  "is_linebreak c = (c \<in> set [CHR 0x0A, CHR 0x0B, CHR 0x0C, CHR 0x0D, CHR 0x1C, CHR 0x1D,
                                CHR 0x1E, CHR 0x85])"

definition strip :: "string \<Rightarrow> string" where
  "strip s = rev (dropWhile is_space (rev (dropWhile is_space s)))"

fun splitlines :: "string \<Rightarrow> string list" where
  \<comment> \<open>a carriage return followed by a line feed is one boundary; a boundary at the end of
      the text opens no further line\<close>
  "splitlines [] = []"
| "splitlines (c # cs) =
     (if is_linebreak c then
        (case cs of
           d # ds \<Rightarrow> if c = CHR 0x0D \<and> d = CHR 0x0A then [] # splitlines ds
                     else [] # splitlines cs
         | [] \<Rightarrow> [[]])
      else (case splitlines cs of [] \<Rightarrow> [[c]] | l # ls \<Rightarrow> (c # l) # ls))"

definition lower_char :: "char \<Rightarrow> char" where
  "lower_char c =
     (let n = (of_char c :: nat)
      in if (65 \<le> n \<and> n \<le> 90) \<or> (192 \<le> n \<and> n \<le> 222 \<and> n \<noteq> 215) then char_of (n + 32)
         else c)"

definition lower :: "string \<Rightarrow> string" where
  "lower s = map lower_char s"

fun join :: "string \<Rightarrow> string list \<Rightarrow> string" where
  "join sep [] = []"
| "join sep [x] = x"
| "join sep (x # y # ys) = x @ sep @ join sep (y # ys)"

fun str_in :: "string \<Rightarrow> string \<Rightarrow> bool" where
  \<comment> \<open>\<open>sub in s\<close>\<close>
  "str_in sub [] = (sub = [])"
| "str_in sub (c # cs) = (take (length sub) (c # cs) = sub \<or> str_in sub cs)"

subsection \<open>The builtins \<open>int\<close> and \<open>float\<close> on strings\<close>

definition digit_val :: "char \<Rightarrow> int" where
  "digit_val c = of_char c - 48"

definition digits_val :: "string \<Rightarrow> int" where
  "digits_val ds = foldl (\<lambda>n c. 10 * n + digit_val c) 0 ds"

fun digitpart :: "string \<Rightarrow> string \<times> string" where
  \<comment> \<open>the longest prefix \<open>digit (["_"] digit)*\<close>: its digits, and the rest of the string\<close>
  "digitpart [] = ([], [])"
| "digitpart (c # cs) =
     (if \<not> is_digit c then ([], c # cs)
      else (case cs of
              u # d # r \<Rightarrow>
                if u = CHR ''_'' \<and> is_digit d
                then (case digitpart (d # r) of (ds, rest) \<Rightarrow> (c # ds, rest))
                else (case digitpart cs of (ds, rest) \<Rightarrow> (c # ds, rest))
            | _ \<Rightarrow> (case digitpart cs of (ds, rest) \<Rightarrow> (c # ds, rest))))"

definition opt_sign :: "string \<Rightarrow> bool \<times> string" where
  \<comment> \<open>an optional sign: whether it is a minus, and the rest\<close>
  "opt_sign s =
     (case s of c # cs \<Rightarrow> if c = CHR ''-'' then (True, cs)
                          else if c = CHR ''+'' then (False, cs) else (False, s)
      | [] \<Rightarrow> (False, []))"

definition py_int :: "string \<Rightarrow> int option" where
  "py_int s =
     (case opt_sign (strip s) of (neg, u) \<Rightarrow>
        (case digitpart u of (ds, rest) \<Rightarrow>
           if ds = [] \<or> rest \<noteq> [] then None
           else Some (if neg then - digits_val ds else digits_val ds)))"

definition decimal_value :: "string \<Rightarrow> string \<Rightarrow> int \<Rightarrow> rat" where
  \<comment> \<open>integer digits, fraction digits and decimal exponent\<close>
  "decimal_value ip fp ex =
     (of_int (digits_val ip) + of_int (digits_val fp) / 10 ^ length fp) * 10 powi ex"

definition float_exponent :: "string \<Rightarrow> int option" where
  \<comment> \<open>what follows the number: nothing, or \<open>e\<close> or \<open>E\<close>, an optional sign and a digit part\<close>
  "float_exponent r =
     (case r of [] \<Rightarrow> Some 0
      | c # cs \<Rightarrow>
          if c = CHR ''e'' \<or> c = CHR ''E'' then
            (case opt_sign cs of (neg, u) \<Rightarrow>
               (case digitpart u of (es, rest) \<Rightarrow>
                  if es = [] \<or> rest \<noteq> [] then None
                  else Some (if neg then - digits_val es else digits_val es)))
          else None)"

definition float_number :: "string \<Rightarrow> rat option" where
  \<comment> \<open>\<open>[digitpart] "." digitpart | digitpart ["."]\<close>, then the exponent\<close>
  "float_number u =
     (case digitpart u of (ip, r1) \<Rightarrow>
        (case r1 of
           c # r2 \<Rightarrow>
             if c = CHR ''.'' then
               (case digitpart r2 of (fp, r3) \<Rightarrow>
                  if ip = [] \<and> fp = [] then None
                  else map_option (decimal_value ip fp) (float_exponent r3))
             else if ip = [] then None
             else map_option (decimal_value ip []) (float_exponent r1)
         | [] \<Rightarrow> if ip = [] then None else Some (decimal_value ip [] 0)))"

definition py_float :: "string \<Rightarrow> pyfloat option" where
  \<comment> \<open>\<open>float(s)\<close>; None stands for ValueError\<close>
  "py_float s =
     (case opt_sign (strip s) of (neg, u) \<Rightarrow>
        if lower u = ''inf'' \<or> lower u = ''infinity'' then Some (if neg then NegInf else PosInf)
        else if lower u = ''nan'' then Some NaN
        else map_option (\<lambda>x. round_double (if neg then - x else x)) (float_number u))"

subsection \<open>The pattern \<open>FLOAT_RE\<close>\<close>

text \<open>
  \<open>[-+]?\d+(?:\.\d+)?(?:[eE][-+]?\d+)?\<close>.  Every quantifier is greedy and everything after
  the first run of digits is optional, so the match at a position is found without
  backtracking into a second alternative: a sign with no digit after it matches nothing,
  and an optional group that cannot be completed is left out.
\<close>

definition re_sign :: "string \<Rightarrow> string \<times> string" where
  "re_sign s =
     (case s of c # cs \<Rightarrow> if c = CHR ''-'' \<or> c = CHR ''+'' then ([c], cs) else ([], s)
      | [] \<Rightarrow> ([], []))"

definition re_digits :: "string \<Rightarrow> string \<times> string" where
  "re_digits s = (takeWhile is_digit s, dropWhile is_digit s)"

definition re_fraction :: "string \<Rightarrow> string \<times> string" where
  "re_fraction s =
     (case s of c # cs \<Rightarrow>
        if c = CHR ''.'' then
          (case re_digits cs of (fs, r) \<Rightarrow> if fs = [] then ([], s) else (c # fs, r))
        else ([], s)
      | [] \<Rightarrow> ([], []))"

definition re_exponent :: "string \<Rightarrow> string \<times> string" where
  "re_exponent s =
     (case s of c # cs \<Rightarrow>
        if c = CHR ''e'' \<or> c = CHR ''E'' then
          (case re_sign cs of (sg, t) \<Rightarrow>
             (case re_digits t of (es, r) \<Rightarrow> if es = [] then ([], s) else (c # sg @ es, r)))
        else ([], s)
      | [] \<Rightarrow> ([], []))"

definition match_at :: "string \<Rightarrow> (string \<times> string) option" where
  \<comment> \<open>the match that starts at the head of the string, and what follows it\<close>
  "match_at s =
     (case re_sign s of (sg, r0) \<Rightarrow>
        (case re_digits r0 of (ds, r1) \<Rightarrow>
           if ds = [] then None
           else (case re_fraction r1 of (fr, r2) \<Rightarrow>
                   (case re_exponent r2 of (ex, r3) \<Rightarrow> Some (sg @ ds @ fr @ ex, r3)))))"

function findall :: "string \<Rightarrow> string list" where
  \<comment> \<open>\<open>FLOAT_RE.findall\<close>: the matches from left to right, none overlapping another\<close>
  "findall [] = []"
| "findall (c # cs) =
     (case match_at (c # cs) of
        Some (m, r) \<Rightarrow> m # findall r
      | None \<Rightarrow> findall cs)"
  by pat_completeness auto
termination
proof (relation "measure length")
  show "wf (measure length)" by simp
next
  fix c :: char and cs :: string and x2 :: "string \<times> string" and m r :: string
  assume m: "match_at (c # cs) = Some x2" and x2: "(m, r) = x2"
  have dg: "\<And>t. length (dropWhile is_digit t) \<le> length t"
    by (simp add: length_dropWhile_le)
  have sg: "\<And>t a b. re_sign t = (a, b) \<Longrightarrow> length b \<le> length t"
    by (auto simp: re_sign_def split: list.splits if_splits)
  have fr: "\<And>t a b. re_fraction t = (a, b) \<Longrightarrow> length b \<le> length t"
    using dg by (auto simp: re_fraction_def re_digits_def le_Suc_eq split: list.splits if_splits)
  have ex: "\<And>t a b. re_exponent t = (a, b) \<Longrightarrow> length b \<le> length t"
  proof -
    fix t a b assume h: "re_exponent t = (a, b)"
    show "length b \<le> length t"
    proof (cases t)
      case Nil
      with h show ?thesis by (simp add: re_exponent_def)
    next
      case (Cons d ds)
      obtain sg' u where su: "re_sign ds = (sg', u)" by (cases "re_sign ds")
      have "length (dropWhile is_digit u) \<le> length u" by (rule dg)
      moreover have "length u \<le> length ds" using sg[OF su] .
      ultimately show ?thesis using h Cons su
        by (auto simp: re_exponent_def re_digits_def split: if_splits)
    qed
  qed
  obtain sg0 r0 where s0: "re_sign (c # cs) = (sg0, r0)" by (cases "re_sign (c # cs)")
  obtain fr1 r2 where s2: "re_fraction (dropWhile is_digit r0) = (fr1, r2)"
    by (cases "re_fraction (dropWhile is_digit r0)")
  obtain ex1 r3 where s3: "re_exponent r2 = (ex1, r3)" by (cases "re_exponent r2")
  from m x2 s0 s2 s3 have ne: "takeWhile is_digit r0 \<noteq> []" and rr: "r = r3"
    by (auto simp: match_at_def re_digits_def split: if_splits)
  from ne have "length (dropWhile is_digit r0) < length r0"
    by (cases r0) (auto simp: length_dropWhile_le le_imp_less_Suc split: if_splits)
  with sg[OF s0] fr[OF s2] ex[OF s3] rr show "(r, c # cs) \<in> measure length" by simp
next
  fix c :: char and cs :: string
  show "(cs, c # cs) \<in> measure length" by simp
qed

definition search :: "string \<Rightarrow> string option" where
  \<comment> \<open>\<open>FLOAT_RE.search\<close>: the leftmost match, or None\<close>
  "search s = (case findall s of [] \<Rightarrow> None | m # ms \<Rightarrow> Some m)"

subsection \<open>Exceptions\<close>

text \<open>
  \<open>Exc cls msg\<close> is an exception of a subclass of \<open>Exception\<close> (RuntimeError, ValueError,
  the exceptions of the requests library) with \<open>str(exc) = msg\<close>.  \<open>SystemExit\<close> derives
  from \<open>BaseException\<close> only, so \<open>except Exception\<close> does not catch it.
\<close>

datatype pyexc = Exc string string | SystemExit int | SystemExitMsg string

fun is_Exception :: "pyexc \<Rightarrow> bool" where
  "is_Exception (Exc _ _) = True"
| "is_Exception _ = False"

fun str_exc :: "pyexc \<Rightarrow> string" where
  "str_exc (Exc _ msg) = msg"
| "str_exc (SystemExit n) = []"
| "str_exc (SystemExitMsg msg) = msg"

subsection \<open>Dictionaries and the values of a row\<close>

datatype pyval = PStr string | PFloat pyfloat | PInt int

text \<open>
  A \<open>dict\<close> keeps its keys in insertion order: an association list with distinct keys.
  Storing under a key that is present replaces the value in place, storing under a new
  key appends, which is \<open>AList.update\<close>.
\<close>

type_synonym pydict = "(string \<times> pyval) list"

definition dict_update :: "pydict \<Rightarrow> pydict \<Rightarrow> pydict" where
  \<comment> \<open>\<open>d.update(other)\<close>\<close>
  "dict_update d other = foldl (\<lambda>acc kv. AList.update (fst kv) (snd kv) acc) d other"

section \<open>The HTTP session and the outside world\<close>

record retry =
  total :: nat
  backoff_factor :: pyfloat
  status_forcelist :: "nat list"
  allowed_methods :: "string list"

record adapter =
  max_retries :: retry

record session =
  adapters :: "(string \<times> adapter) list"
  headers :: "(string \<times> string) list"

definition default_adapter :: adapter where
  \<comment> \<open>\<open>HTTPAdapter()\<close>: no retries\<close>
  "default_adapter =
     \<lparr>max_retries = \<lparr>total = 0, backoff_factor = Finite 0, status_forcelist = [],
                      allowed_methods = [''DELETE'', ''GET'', ''HEAD'', ''OPTIONS'', ''PUT'',
                                         ''TRACE'']\<rparr>\<rparr>"

definition new_session :: "(string \<times> string) list \<Rightarrow> session" where
  \<comment> \<open>\<open>requests.Session()\<close>, given the default headers of the installed library\<close>
  "new_session default_headers =
     \<lparr>adapters = [(''https://'', default_adapter), (''http://'', default_adapter)],
      headers = default_headers\<rparr>"

definition mount :: "session \<Rightarrow> string \<Rightarrow> adapter \<Rightarrow> session" where
  \<comment> \<open>\<open>Session.mount\<close>: store the adapter, then move every shorter prefix behind it\<close>
  "mount s prefix a =
     (let stored = AList.update prefix a (adapters s)
      in s\<lparr>adapters := filter (\<lambda>kv. \<not> length (fst kv) < length prefix) stored @
                          filter (\<lambda>kv. length (fst kv) < length prefix) stored\<rparr>)"

definition startswith :: "string \<Rightarrow> string \<Rightarrow> bool" where
  "startswith s pre = (take (length pre) s = pre)"

definition get_adapter :: "session \<Rightarrow> string \<Rightarrow> adapter option" where
  \<comment> \<open>\<open>Session.get_adapter\<close>: the first mounted prefix the lowercased URL starts with\<close>
  "get_adapter s u =
     map_option snd (find (\<lambda>kv. startswith (lower u) (lower (fst kv))) (adapters s))"

definition make_session :: "(string \<times> string) list \<Rightarrow> session" where
  "make_session default_headers =
     (let s = new_session default_headers;
          retry = \<lparr>total = 5, backoff_factor = Finite (1 / 2),
                   status_forcelist = [429, 500, 502, 503, 504],
                   allowed_methods = [''GET'']\<rparr>;
          adapter = \<lparr>max_retries = retry\<rparr>;
          s = mount s ''https://'' adapter;
          s = mount s ''http://'' adapter
      in s\<lparr>headers := AList.update ''User-Agent''
                          ''inspect-batch-scraper/1.1 (python requests)'' (headers s)\<rparr>)"

text \<open>
  A query parameter is a string built by the program: a string it was given, a float
  under the format \<open>g\<close>, or \<open>str\<close> of an integer.  The formatting itself is the
  interpreter's and is kept symbolic.
\<close>

datatype param = Lit string | FormatG pyfloat | StrOf int

record request =
  req_method :: string
  req_url :: string
  req_params :: "(string \<times> param) list"
  req_timeout :: nat

text \<open>
  What BeautifulSoup finds in a page: the text of the first \<open>pre\<close> element as
  \<open>get_text("\n", strip=True)\<close> returns it, and the \<open>option\<close> elements of the first
  \<open>select\<close> named \<open>wi\<close>, each with its \<open>value\<close> attribute (if it has one) and its text.
\<close>

record html_option =
  opt_value :: "string option"
  opt_text :: string

record html_doc =
  find_pre :: "string option"
  find_select_wi :: "html_option list option"

record response =
  status_code :: nat
  http_error :: string
  soup :: html_doc

text \<open>
  A write to stdout or stderr can raise: the stream may be closed or blocked, or its
  encoding may not hold the text.  The program writes at four places: the three header
  lines of \<open>main\<close>, the line that reports a value done, the line that reports its error,
  and the message of \<open>parse_pre_block\<close>.
\<close>

datatype write_site = PrintHeader nat | PrintDone | PrintError | StderrNoPre

text \<open>
  The world answers the \<open>n\<close>-th request of the run, either with a response or with an
  exception of the requests library (class and message); it keeps the requests sent so
  far; it decides whether \<open>time.sleep\<close> raises on a given argument; and it decides
  whether a write raises, given the place and the number of requests sent so far
  (between two requests each place writes at most once).
\<close>

record world =
  server :: "nat \<Rightarrow> request \<Rightarrow> (string \<times> string) + response"
  sent :: "request list"
  sleep_raises :: "pyfloat \<Rightarrow> (string \<times> string) option"
  output_raises :: "write_site \<Rightarrow> nat \<Rightarrow> (string \<times> string) option"

definition write_raises :: "world \<Rightarrow> write_site \<Rightarrow> (string \<times> string) option" where
  \<comment> \<open>what the write at a place raises now, if anything\<close>
  "write_raises w place = output_raises w place (length (sent w))"

definition session_get ::
  "world \<Rightarrow> session \<Rightarrow> string \<Rightarrow> (string \<times> param) list \<Rightarrow> nat \<Rightarrow> (pyexc + response) \<times> world"
where
  "session_get w s u ps t =
     (let req = \<lparr>req_method = ''GET'', req_url = u, req_params = ps, req_timeout = t\<rparr>
      in (case server w (length (sent w)) req of
            Inl (cls, msg) \<Rightarrow> Inl (Exc cls msg)
          | Inr r \<Rightarrow> Inr r,
          w\<lparr>sent := sent w @ [req]\<rparr>))"

definition raise_for_status :: "response \<Rightarrow> pyexc + unit" where
  \<comment> \<open>\<open>http_error r\<close> is the message requests builds from status, reason and URL\<close>
  "raise_for_status r =
     (if 400 \<le> status_code r \<and> status_code r < 600 then Inl (Exc ''HTTPError'' (http_error r))
      else Inr ())"

definition BASE :: string where
  "BASE = ''https://www.inspect-stars.com''"

definition ENDPOINT_EW :: string where
  "ENDPOINT_EW = BASE @ ''/A_from_e''"

definition ENDPOINT_LTE :: string where
  "ENDPOINT_LTE = BASE @ ''/nonlte_from_lte''"

section \<open>Resolving a wavelength to a line index\<close>

type_synonym line = "int \<times> pyfloat \<times> string"

fun option_lines :: "html_option list \<Rightarrow> line list" where
  \<comment> \<open>the loop over the options of the dropdown\<close>
  "option_lines [] = []"
| "option_lines (opt # opts) =
     (let val = strip (case opt_value opt of None \<Rightarrow> [] | Some v \<Rightarrow> v);
          txt = strip (opt_text opt)
      in if val = [] then option_lines opts
         else (case py_int val of
                 None \<Rightarrow> option_lines opts
               | Some wi \<Rightarrow>
                   (wi, (case py_float txt of None \<Rightarrow> NaN | Some wav \<Rightarrow> wav), txt)
                   # option_lines opts))"

definition fetch_available_lines ::
  "world \<Rightarrow> session \<Rightarrow> string \<Rightarrow> (pyexc + line list) \<times> world"
where
  "fetch_available_lines w s element =
     (case session_get w s (ENDPOINT_LTE @ ''?element_name='' @ element) [] 20 of
        (Inl e, w') \<Rightarrow> (Inl e, w')
      | (Inr r, w') \<Rightarrow>
          (case raise_for_status r of
             Inl e \<Rightarrow> (Inl e, w')
           | Inr _ \<Rightarrow>
               (case find_select_wi (soup r) of
                  None \<Rightarrow>
                    (Inl (Exc ''RuntimeError''
                            (''Could not find wavelength selector for element '' @ element @ ''.'')),
                     w')
                | Some opts \<Rightarrow>
                    (let lines = option_lines opts
                     in if lines = []
                        then (Inl (Exc ''RuntimeError''
                                     (''No lines found for element '' @ element @ ''.'')), w')
                        else (Inr lines, w')))))"

definition tol :: pyfloat where
  \<comment> \<open>the float literal \<open>1e-6\<close>\<close>
  "tol = round_double (1 / 1000000)"

definition is_close :: "pyfloat \<Rightarrow> line \<Rightarrow> bool" where
  \<comment> \<open>the test of the first loop: \<open>not math.isnan(wav) and abs(wav - wavelength) < 1e-6\<close>\<close>
  "is_close wavelength t = (case t of (wi, wav, txt) \<Rightarrow>
     \<not> isnan wav \<and> flt (fabs (fsub wav wavelength)) tol)"

definition dist_key :: "pyfloat \<Rightarrow> line \<Rightarrow> pyfloat" where
  \<comment> \<open>the key of \<open>min\<close>: \<open>abs(t[1] - wavelength) if not math.isnan(t[1]) else float("inf")\<close>\<close>
  "dist_key wavelength t =
     (if \<not> isnan (fst (snd t)) then fabs (fsub (fst (snd t)) wavelength) else PosInf)"

fun min_loop :: "('a \<Rightarrow> pyfloat) \<Rightarrow> 'a \<Rightarrow> 'a list \<Rightarrow> 'a" where
  \<comment> \<open>the loop of the builtin \<open>min\<close>: the item kept is replaced by a later one only when
      the later one's key is strictly smaller\<close>
  "min_loop key best [] = best"
| "min_loop key best (x # xs) = min_loop key (if flt (key x) (key best) then x else best) xs"

definition py_min :: "('a \<Rightarrow> pyfloat) \<Rightarrow> 'a list \<Rightarrow> pyexc + 'a" where
  "py_min key xs =
     (case xs of [] \<Rightarrow> Inl (Exc ''ValueError'' ''min() arg is an empty sequence'')
      | x # rest \<Rightarrow> Inr (min_loop key x rest))"

definition choose_wi_from_lines :: "line list \<Rightarrow> pyfloat \<Rightarrow> pyexc + (int \<times> pyfloat)" where
  \<comment> \<open>the body of \<open>choose_wi_from_wavelength\<close> once the lines are fetched\<close>
  "choose_wi_from_lines lines wavelength =
     (case find (is_close wavelength) lines of
        Some (wi, wav, txt) \<Rightarrow> Inr (wi, wav)
      | None \<Rightarrow>
          (case py_min (dist_key wavelength) lines of
             Inl e \<Rightarrow> Inl e
           | Inr nearest \<Rightarrow> Inr (fst nearest, fst (snd nearest))))"

definition choose_wi_from_wavelength ::
  "world \<Rightarrow> session \<Rightarrow> string \<Rightarrow> pyfloat \<Rightarrow> (pyexc + (int \<times> pyfloat)) \<times> world"
where
  "choose_wi_from_wavelength w s element wavelength =
     (case fetch_available_lines w s element of
        (Inl e, w') \<Rightarrow> (Inl e, w')
      | (Inr lines, w') \<Rightarrow> (choose_wi_from_lines lines wavelength, w'))"

section \<open>Parsing the results block\<close>

definition parse_pre_block :: "(string \<times> string) option \<Rightarrow> html_doc \<Rightarrow> pyexc + pydict" where
  \<comment> \<open>the first argument is what \<open>sys.stderr.write\<close> raises, if anything: the message is
      written before \<open>sys.exit(1)\<close>, so a failing write replaces the exit\<close>
  "parse_pre_block stderr_raises html =
     (case find_pre html of
        None \<Rightarrow>
          (case stderr_raises of
             Some (cls, msg) \<Rightarrow> Inl (Exc cls msg)
           | None \<Rightarrow> Inl (SystemExit 1))
      | Some text \<Rightarrow>
          (let lines = filter (\<lambda>ln. strip ln \<noteq> []) (splitlines text)
           in if lines = [] then Inl (Exc ''RuntimeError'' ''Empty results block.'')
              else (case find (\<lambda>ln. search ln \<noteq> None) (rev lines) of
                      None \<Rightarrow> Inl (Exc ''RuntimeError'' ''Could not locate numeric result line.'')
                    | Some value_line \<Rightarrow>
                        (case those (map py_float (findall value_line)) of
                           None \<Rightarrow> Inl (Exc ''ValueError'' ''could not convert string to float'')
                         | Some nums \<Rightarrow>
                             (let header = lower (join [CHR 0x0A] (take 2 lines))
                              in if str_in ''ew'' header \<and> 5 \<le> length nums then
                                   Inr [(''EW_mA'', PFloat (nums ! 0)), (''A_LTE'', PFloat (nums ! 1)),
                                        (''A_NLTE'', PFloat (nums ! 2)), (''Delta'', PFloat (nums ! 3)),
                                        (''OFe_NLTE'', PFloat (nums ! 4))]
                                 else if length nums = 5 then
                                   Inr [(''EW_mA'', PFloat (nums ! 0)), (''A_LTE'', PFloat (nums ! 1)),
                                        (''A_NLTE'', PFloat (nums ! 2)), (''Delta'', PFloat (nums ! 3)),
                                        (''OFe_NLTE'', PFloat (nums ! 4))]
                                 else if length nums = 4 then
                                   Inr [(''A_LTE'', PFloat (nums ! 0)), (''A_NLTE'', PFloat (nums ! 1)),
                                        (''Delta'', PFloat (nums ! 2)), (''OFe_NLTE'', PFloat (nums ! 3))]
                                 else if length nums = 3 then
                                   Inr [(''A_LTE'', PFloat (nums ! 0)), (''A_NLTE'', PFloat (nums ! 1)),
                                        (''Delta'', PFloat (nums ! 2))]
                                 else Inl (Exc ''RuntimeError''
                                             (''Unrecognized numeric format in result line: ''
                                              @ value_line)))))))"

section \<open>The two queries\<close>

definition query_A_from_e ::
  "world \<Rightarrow> string \<Rightarrow> pyfloat \<Rightarrow> pyfloat \<Rightarrow> pyfloat \<Rightarrow> pyfloat \<Rightarrow> pyfloat \<Rightarrow> int \<Rightarrow> session
     \<Rightarrow> (pyexc + pydict) \<times> world"
where
  "query_A_from_e w element ew_mA teff logg feh vt wi s =
     (let params = [(''element_name'', Lit element), (''e'', FormatG ew_mA),
                    (''t'', FormatG teff), (''g'', FormatG logg), (''f'', FormatG feh),
                    (''x'', FormatG vt), (''wi'', StrOf wi)]
      in case session_get w s ENDPOINT_EW params 30 of
           (Inl e, w') \<Rightarrow> (Inl e, w')
         | (Inr r, w') \<Rightarrow>
             (case raise_for_status r of
                Inl e \<Rightarrow> (Inl e, w')
              | Inr _ \<Rightarrow>
                  (case parse_pre_block (write_raises w' StderrNoPre) (soup r) of
                     Inl e \<Rightarrow> (Inl e, w')
                   | Inr out \<Rightarrow> (Inr (dict_update out [(''mode'', PStr ''ew'')]), w'))))"

definition query_nlte_from_lte ::
  "world \<Rightarrow> string \<Rightarrow> pyfloat \<Rightarrow> pyfloat \<Rightarrow> pyfloat \<Rightarrow> pyfloat \<Rightarrow> pyfloat \<Rightarrow> int \<Rightarrow> session
     \<Rightarrow> (pyexc + pydict) \<times> world"
where
  "query_nlte_from_lte w element A_lte teff logg feh vt wi s =
     (let params = [(''element_name'', Lit element), (''A_lte'', FormatG A_lte),
                    (''t'', FormatG teff), (''g'', FormatG logg), (''f'', FormatG feh),
                    (''x'', FormatG vt), (''wi'', StrOf wi)]
      in case session_get w s ENDPOINT_LTE params 30 of
           (Inl e, w') \<Rightarrow> (Inl e, w')
         | (Inr r, w') \<Rightarrow>
             (case raise_for_status r of
                Inl e \<Rightarrow> (Inl e, w')
              | Inr _ \<Rightarrow>
                  (case parse_pre_block (write_raises w' StderrNoPre) (soup r) of
                     Inl e \<Rightarrow> (Inl e, w')
                   | Inr out \<Rightarrow> (Inr (dict_update out [(''mode'', PStr ''lte'')]), w'))))"

section \<open>Input values and the CSV\<close>

definition read_values :: "pyfloat list \<Rightarrow> pyexc + pyfloat list" where
  \<comment> \<open>the argument is \<open>vals\<close> as the three sources (\<open>--values\<close>, the file, stdin) have
      filled it, in that order; the function's last step is modelled\<close>
  "read_values vals =
     (if vals = []
      then Inl (SystemExitMsg
                  ''No input values found. Use --values, --values-file, or pipe via stdin.'')
      else Inr vals)"

record csv =
  csv_path :: "string option"
  fieldnames :: "string list"
  records :: "pyval option list list"

definition preferred :: "string list" where
  "preferred = [''mode'', ''element'', ''wi'', ''wavelength_A'', ''Teff'', ''logg'', ''FeH'', ''vt'',
                ''input_value'', ''EW_mA'', ''A_LTE'', ''A_NLTE'', ''Delta'', ''OFe_NLTE'', ''error'']"

definition write_csv :: "pydict list \<Rightarrow> string option \<Rightarrow> csv option" where
  \<comment> \<open>None: nothing is written (the message goes to stderr).  \<open>csv_path = None\<close> is
      stdout, also for an empty path, which \<open>if out_path:\<close> takes for absent.  A cell
      is the row's value under the column, or None for the empty \<open>restval\<close>.\<close>
  "write_csv rows out_path =
     (if rows = [] then None
      else (let cols = set (concat (map (map fst) rows));
                header = filter (\<lambda>c. c \<in> cols) preferred @
                         filter (\<lambda>c. c \<notin> set preferred) (sorted_list_of_set cols)
            in Some \<lparr>csv_path = (case out_path of None \<Rightarrow> None
                                  | Some pth \<Rightarrow> if pth = [] then None else Some pth),
                     fieldnames = header,
                     records = map (\<lambda>r. map (map_of r) header) rows\<rparr>))"

section \<open>The main program\<close>

datatype mode = EW | LTE

fun mode_str :: "mode \<Rightarrow> string" where
  "mode_str EW = ''ew''"
| "mode_str LTE = ''lte''"

record args =
  arg_element :: string
  arg_mode :: mode
  arg_teff :: pyfloat
  arg_logg :: pyfloat
  arg_feh :: pyfloat
  arg_vt :: pyfloat
  arg_wavelength :: "pyfloat option"
  arg_wi :: "int option"
  arg_out :: "string option"
  arg_sleep :: pyfloat
  arg_quiet :: bool

text \<open>
  Of the lines printed when \<open>--quiet\<close> is absent the model keeps that they are written
  and may raise; their text, which formats floats, is not kept.
\<close>

definition resolve_wi :: "world \<Rightarrow> session \<Rightarrow> args \<Rightarrow> (pyexc + (int \<times> pyfloat)) \<times> world" where
  \<comment> \<open>lines 346 to 352: the line index and the matched wavelength.  In a dict
      comprehension a later pair with the same key replaces an earlier one.\<close>
  "resolve_wi w s a =
     (case arg_wavelength a of
        Some wavelength \<Rightarrow> choose_wi_from_wavelength w s (arg_element a) wavelength
      | None \<Rightarrow>
          (case arg_wi a of
             None \<Rightarrow> (Inl (SystemExit 2), w)
           | Some wi \<Rightarrow>
               (case fetch_available_lines w s (arg_element a) of
                  (Inl e, w') \<Rightarrow> (Inl e, w')
                | (Inr lines, w') \<Rightarrow>
                    (let wav_map = map_of (rev (map (\<lambda>t. (fst t, fst (snd t))) lines))
                     in (Inr (wi, (case wav_map wi of None \<Rightarrow> NaN | Some wav \<Rightarrow> wav)), w')))))"

definition run_context :: "args \<Rightarrow> int \<Rightarrow> pyfloat \<Rightarrow> pyfloat \<Rightarrow> pydict" where
  \<comment> \<open>the keys both kinds of row receive after \<open>mode\<close>\<close>
  "run_context a wi matched_wav v =
     [(''element'', PStr (arg_element a)), (''wi'', PInt wi), (''wavelength_A'', PFloat matched_wav),
      (''Teff'', PFloat (arg_teff a)), (''logg'', PFloat (arg_logg a)), (''FeH'', PFloat (arg_feh a)),
      (''vt'', PFloat (arg_vt a)), (''input_value'', PFloat v)]"

definition error_row :: "args \<Rightarrow> int \<Rightarrow> pyfloat \<Rightarrow> pyfloat \<Rightarrow> pyexc \<Rightarrow> pydict" where
  "error_row a wi matched_wav v exc =
     (''mode'', PStr (mode_str (arg_mode a))) # run_context a wi matched_wav v @
       [(''error'', PStr (take 300 (str_exc exc)))]"

definition except_clause ::
  "world \<Rightarrow> args \<Rightarrow> int \<Rightarrow> pyfloat \<Rightarrow> pyfloat \<Rightarrow> pydict list \<Rightarrow> pyexc
     \<Rightarrow> (pyexc + pydict list) \<times> world"
where
  \<comment> \<open>the handler \<open>except Exception as exc\<close>: it appends the error row to what the \<open>try\<close>
      block has appended, then prints, and an exception of that print escapes\<close>
  "except_clause w a wi matched_wav v appended exc =
     (if arg_quiet a then (Inr (appended @ [error_row a wi matched_wav v exc]), w)
      else (case write_raises w PrintError of
              Some (cls, msg) \<Rightarrow> (Inl (Exc cls msg), w)
            | None \<Rightarrow> (Inr (appended @ [error_row a wi matched_wav v exc]), w)))"

definition try_value ::
  "world \<Rightarrow> session \<Rightarrow> args \<Rightarrow> int \<Rightarrow> pyfloat \<Rightarrow> pyfloat \<Rightarrow> (pyexc + pydict list) \<times> world"
where
  \<comment> \<open>the \<open>try\<close> statement of the loop: the rows it appends, or the exception that
      escapes it.  The row of a query that returned is appended before the progress line
      is printed, inside the \<open>try\<close> block, so a print that raises is handled like a query
      that raised.\<close>
  "try_value w s a wi matched_wav v =
     (case (if arg_mode a = EW
            then query_A_from_e w (arg_element a) v (arg_teff a) (arg_logg a) (arg_feh a)
                   (arg_vt a) wi s
            else query_nlte_from_lte w (arg_element a) v (arg_teff a) (arg_logg a) (arg_feh a)
                   (arg_vt a) wi s) of
        (Inr res, w') \<Rightarrow>
          (let row = dict_update res (run_context a wi matched_wav v)
           in if arg_quiet a then (Inr [row], w')
              else (case write_raises w' PrintDone of
                      None \<Rightarrow> (Inr [row], w')
                    | Some (cls, msg) \<Rightarrow>
                        except_clause w' a wi matched_wav v [row] (Exc cls msg)))
      | (Inl exc, w') \<Rightarrow>
          if is_Exception exc then except_clause w' a wi matched_wav v [] exc
          else (Inl exc, w'))"

fun main_loop ::
  "world \<Rightarrow> session \<Rightarrow> args \<Rightarrow> int \<Rightarrow> pyfloat \<Rightarrow> pyfloat list \<Rightarrow> pydict list
     \<Rightarrow> (pyexc + pydict list) \<times> world"
where
  "main_loop w s a wi matched_wav [] rows = (Inr rows, w)"
| "main_loop w s a wi matched_wav (v # vs) rows =
     (case try_value w s a wi matched_wav v of
        (Inl exc, w') \<Rightarrow> (Inl exc, w')
      | (Inr appended, w') \<Rightarrow>
          (case sleep_raises w' (arg_sleep a) of
             Some (cls, msg) \<Rightarrow> (Inl (Exc cls msg), w')
           | None \<Rightarrow> main_loop w' s a wi matched_wav vs (rows @ appended)))"

definition header_prints :: "world \<Rightarrow> args \<Rightarrow> (string \<times> string) option" where
  \<comment> \<open>the three prints before the loop: what the first failing one raises\<close>
  "header_prints w a =
     (if arg_quiet a then None
      else (case write_raises w (PrintHeader 0) of
              Some e \<Rightarrow> Some e
            | None \<Rightarrow>
                (case write_raises w (PrintHeader 1) of
                   Some e \<Rightarrow> Some e
                 | None \<Rightarrow> write_raises w (PrintHeader 2))))"

datatype outcome = Terminated pyexc | Finished "csv option"

definition main :: "world \<Rightarrow> (string \<times> string) list \<Rightarrow> args \<Rightarrow> pyfloat list \<Rightarrow> outcome \<times> world" where
  \<comment> \<open>\<open>ap.error\<close> exits with status 2\<close>
  "main w default_headers a vals =
     (if (arg_wavelength a = None) = (arg_wi a = None) then (Terminated (SystemExit 2), w)
      else (case read_values vals of
              Inl e \<Rightarrow> (Terminated e, w)
            | Inr values \<Rightarrow>
                (let sess = make_session default_headers
                 in case resolve_wi w sess a of
                      (Inl e, w1) \<Rightarrow> (Terminated e, w1)
                    | (Inr (wi, matched_wav), w1) \<Rightarrow>
                        (case header_prints w1 a of
                           Some (cls, msg) \<Rightarrow> (Terminated (Exc cls msg), w1)
                         | None \<Rightarrow>
                             (case main_loop w1 sess a wi matched_wav values [] of
                                (Inl e, w2) \<Rightarrow> (Terminated e, w2)
                              | (Inr rows, w2) \<Rightarrow>
                                  (Finished (write_csv rows (arg_out a)), w2))))))"

section \<open>One value as a function of what the world gives it\<close>

text \<open>
  The two query functions differ in the endpoint, in the name of the parameter that
  carries the value and in the mode they record.  The next three definitions describe
  what either of them sends and returns, and what the \<open>try\<close> statement makes of it, as
  functions of the reply to the request and of what the writes of this value raise;
  \<open>try_value_eq\<close> below proves that the program computes exactly this.
\<close>

definition query_request :: "args \<Rightarrow> int \<Rightarrow> pyfloat \<Rightarrow> request" where
  "query_request a wi v =
     \<lparr>req_method = ''GET'',
      req_url = (case arg_mode a of EW \<Rightarrow> ENDPOINT_EW | LTE \<Rightarrow> ENDPOINT_LTE),
      req_params = [(''element_name'', Lit (arg_element a)),
                    (case arg_mode a of EW \<Rightarrow> ''e'' | LTE \<Rightarrow> ''A_lte'', FormatG v),
                    (''t'', FormatG (arg_teff a)), (''g'', FormatG (arg_logg a)),
                    (''f'', FormatG (arg_feh a)), (''x'', FormatG (arg_vt a)), (''wi'', StrOf wi)],
      req_timeout = 30\<rparr>"

definition query_outcome ::
  "mode \<Rightarrow> (string \<times> string) option \<Rightarrow> (string \<times> string) + response \<Rightarrow> pyexc + pydict"
where
  "query_outcome m stderr_raises reply =
     (case reply of
        Inl (cls, msg) \<Rightarrow> Inl (Exc cls msg)
      | Inr r \<Rightarrow>
          (case raise_for_status r of
             Inl e \<Rightarrow> Inl e
           | Inr _ \<Rightarrow>
               (case parse_pre_block stderr_raises (soup r) of
                  Inl e \<Rightarrow> Inl e
                | Inr out \<Rightarrow> Inr (dict_update out [(''mode'', PStr (mode_str m))]))))"

definition value_rows ::
  "args \<Rightarrow> int \<Rightarrow> pyfloat \<Rightarrow> pyfloat \<Rightarrow> (string \<times> string) + response
     \<Rightarrow> (write_site \<Rightarrow> (string \<times> string) option) \<Rightarrow> pyexc + pydict list"
where
  \<comment> \<open>the rows one value adds, or the exception that ends the run\<close>
  "value_rows a wi matched_wav v reply raises =
     (let handle = (\<lambda>appended exc.
            if arg_quiet a then Inr (appended @ [error_row a wi matched_wav v exc])
            else (case raises PrintError of
                    Some (cls, msg) \<Rightarrow> Inl (Exc cls msg)
                  | None \<Rightarrow> Inr (appended @ [error_row a wi matched_wav v exc])))
      in case query_outcome (arg_mode a) (raises StderrNoPre) reply of
           Inr res \<Rightarrow>
             (let row = dict_update res (run_context a wi matched_wav v)
              in if arg_quiet a then Inr [row]
                 else (case raises PrintDone of
                         None \<Rightarrow> Inr [row]
                       | Some (cls, msg) \<Rightarrow> handle [row] (Exc cls msg)))
         | Inl exc \<Rightarrow> if is_Exception exc then handle [] exc else Inl exc)"

section \<open>Inputs used in the examples\<close>

definition example_dropdown :: "html_option list" where
  "example_dropdown =
     [\<lparr>opt_value = Some [], opt_text = ''Choose a line''\<rparr>,
      \<lparr>opt_value = Some ''3'', opt_text = ''7771.5''\<rparr>,
      \<lparr>opt_value = Some ''4'', opt_text = ''7774.25''\<rparr>]"

definition example_page :: "string option \<Rightarrow> response" where
  \<comment> \<open>a page with the dropdown above and the given results block\<close>
  "example_page pre =
     \<lparr>status_code = 200, http_error = [],
      soup = \<lparr>find_pre = pre, find_select_wi = Some example_dropdown\<rparr>\<rparr>"

definition example_world :: "(nat \<Rightarrow> (string \<times> string) + response) \<Rightarrow> world" where
  \<comment> \<open>a world that answers the \<open>n\<close>-th request with \<open>replies n\<close> and in which neither
      sleeping nor writing raises\<close>
  "example_world replies =
     \<lparr>server = (\<lambda>n req. replies n), sent = [], sleep_raises = (\<lambda>secs. None),
      output_raises = (\<lambda>place n. None)\<rparr>"

definition blocked_world :: "(nat \<Rightarrow> (string \<times> string) + response) \<Rightarrow> world" where
  \<comment> \<open>the same, except that printing the line of a value done raises: stdout is a pipe
      in non-blocking mode that is full whenever that line is flushed\<close>
  "blocked_world replies =
     \<lparr>server = (\<lambda>n req. replies n), sent = [], sleep_raises = (\<lambda>secs. None),
      output_raises = (\<lambda>place n. if place = PrintDone
                                     then Some (''BlockingIOError'',
                                                ''[Errno 11] write could not complete without blocking'')
                                     else None)\<rparr>"

definition example_args :: args where
  "example_args =
     \<lparr>arg_element = ''O'', arg_mode = LTE, arg_teff = Finite 5777, arg_logg = Finite 4,
      arg_feh = Finite 0, arg_vt = Finite 1, arg_wavelength = None, arg_wi = Some 7,
      arg_out = None, arg_sleep = Finite 0, arg_quiet = False\<rparr>"

definition example_replies :: "nat \<Rightarrow> (string \<times> string) + response" where
  \<comment> \<open>a results block for the first request, a connection error for the second, a page
      without results block from then on\<close>
  "example_replies n =
     (if n = 0 then Inr (example_page (Some ''8.5 8.25 -0.25''))
      else if n = 1 then Inl (''ConnectionError'', ''boom'')
      else Inr (example_page None))"

definition page_404 :: response where
  \<comment> \<open>an error page: status 404 and no results block\<close>
  "page_404 =
     \<lparr>status_code = 404, http_error = ''404 Client Error: Not Found'',
      soup = \<lparr>find_pre = None, find_select_wi = None\<rparr>\<rparr>"

definition page_no_lines :: response where
  \<comment> \<open>a page whose dropdown holds the placeholder only\<close>
  "page_no_lines =
     \<lparr>status_code = 200, http_error = [],
      soup = \<lparr>find_pre = None,
               find_select_wi = Some [\<lparr>opt_value = Some [], opt_text = ''Choose a line''\<rparr>]\<rparr>\<rparr>"

definition example_block :: string where
  \<comment> \<open>a results block of the EW calculator: a heading and a line of five numbers\<close>
  "example_block =
     ''EW  A(O) LTE  A(O) NLTE  Delta  [O/Fe] NLTE'' @ [CHR 0x0A] @
     ''65  8.5     8.25      -0.25 -0.125''"

section \<open>The resolver\<close>

lemma flt_trans: "flt a b \<Longrightarrow> flt b c \<Longrightarrow> flt a c"
  by (cases a; cases b; cases c) auto

lemma flt_asym: "flt a b \<Longrightarrow> \<not> flt b a"
  by (cases a; cases b) auto

lemma not_flt_fle: "\<not> isnan a \<Longrightarrow> \<not> isnan b \<Longrightarrow> \<not> flt b a \<Longrightarrow> fle a b"
  by (cases a; cases b) (auto simp: isnan_def)

lemma min_loop_mem: "min_loop key b xs \<in> set (b # xs)"
  by (induction xs arbitrary: b) auto

text \<open>
  No item has a key strictly below the key of the item \<open>min\<close> returns.  \<open>S\<close> collects the
  items the loop has already passed.
\<close>

lemma min_loop_least:
  "\<forall>u\<in>S. \<not> flt (key u) (key b) \<Longrightarrow>
   \<forall>u\<in>S \<union> set (b # xs). \<not> flt (key u) (key (min_loop key b xs))"
proof (induction xs arbitrary: b S)
  case Nil
  then show ?case by (auto dest: flt_asym)
next
  case (Cons x xs)
  let ?b = "if flt (key x) (key b) then x else b"
  have "\<forall>u\<in>S \<union> {b, x}. \<not> flt (key u) (key ?b)"
    using Cons.prems by (auto dest: flt_asym flt_trans)
  from Cons.IH[OF this] show ?case by auto
qed

lemma min_loop_keep: "\<forall>u\<in>set xs. \<not> flt (key u) (key b) \<Longrightarrow> min_loop key b xs = b"
  by (induction xs) auto

lemma find_first:
  "find P xs = Some t \<Longrightarrow> P t \<and> (\<exists>pre post. xs = pre @ t # post \<and> (\<forall>u\<in>set pre. \<not> P u))"
proof (induction xs)
  case Nil
  then show ?case by simp
next
  case (Cons x xs)
  show ?case
  proof (cases "P x")
    case True
    with Cons.prems have "t = x" by simp
    then have "x # xs = [] @ t # xs \<and> (\<forall>u\<in>set []. \<not> P u)" by simp
    with True \<open>t = x\<close> show ?thesis by blast
  next
    case False
    with Cons.prems have "find P xs = Some t" by simp
    from Cons.IH[OF this] obtain pre post where "P t" "xs = pre @ t # post" "\<forall>u\<in>set pre. \<not> P u"
      by blast
    with False have "x # xs = (x # pre) @ t # post \<and> (\<forall>u\<in>set (x # pre). \<not> P u)" by simp
    with \<open>P t\<close> show ?thesis by blast
  qed
qed

lemma dist_key_finite_not_nan: "\<not> isnan (dist_key (Finite r) u)"
proof (cases "fst (snd u)")
  case (Finite a)
  then show ?thesis
    by (auto simp: dist_key_def isnan_def round_double_def Let_def)
qed (auto simp: dist_key_def isnan_def)

lemma choose_wi_from_lines_Inr:
  "lines \<noteq> [] \<Longrightarrow> \<exists>r. choose_wi_from_lines lines wavelength = Inr r"
  by (cases lines) (auto simp: choose_wi_from_lines_def py_min_def split: option.splits)

lemma fetch_available_lines_nonempty:
  "fetch_available_lines w s element = (Inr fetched, w') \<Longrightarrow> fetched \<noteq> []"
  by (auto simp: fetch_available_lines_def Let_def
           split: prod.splits sum.splits option.splits if_splits)

lemma example_fetch:
  "fst (fetch_available_lines (example_world (\<lambda>n. Inr (example_page None))) (make_session []) ''O'') =
     Inr [(3, Finite (15543 / 2), ''7771.5''), (4, Finite (31097 / 4), ''7774.25'')]"
  by code_simp

text \<open>
  C2, as the code has it.  When some line has a wavelength that is not NaN and lies within
  \<open>1e-6\<close> of the request (the difference as the floats compute it), the first such line
  of the list is returned, whether or not a later line is nearer.  Otherwise the line
  returned is one whose key no line undercuts, the key being the computed distance for a
  wavelength that is not NaN and infinity for NaN: its wavelength is not NaN as soon as
  some line has a finite key, and for a finite request its key is at most every line's.
\<close>

theorem choose_wi_first_close_or_nearest:
  assumes "lines \<noteq> []"
  shows "\<exists>t\<in>set lines. choose_wi_from_lines lines wavelength = Inr (fst t, fst (snd t)) \<and>
     (if \<exists>u\<in>set lines. is_close wavelength u
      then is_close wavelength t \<and>
           (\<exists>pre post. lines = pre @ t # post \<and> (\<forall>u\<in>set pre. \<not> is_close wavelength u))
      else (\<forall>u\<in>set lines. \<not> flt (dist_key wavelength u) (dist_key wavelength t)) \<and>
           ((\<exists>u\<in>set lines. flt (dist_key wavelength u) PosInf) \<longrightarrow> \<not> isnan (fst (snd t))) \<and>
           ((\<exists>r. wavelength = Finite r) \<longrightarrow>
              (\<forall>u\<in>set lines. fle (dist_key wavelength t) (dist_key wavelength u))))"
proof (cases "find (is_close wavelength) lines")
  case None
  then have none: "\<not> (\<exists>u\<in>set lines. is_close wavelength u)"
    by (auto simp: find_None_iff)
  from assms obtain b rest where lines: "lines = b # rest" by (cases lines) auto
  let ?k = "dist_key wavelength"
  let ?t = "min_loop ?k b rest"
  have mem: "?t \<in> set lines" using min_loop_mem[of ?k b rest] lines by simp
  have least: "\<forall>u\<in>set lines. \<not> flt (?k u) (?k ?t)"
    using min_loop_least[of "{}" ?k b rest] lines by simp
  have res: "choose_wi_from_lines lines wavelength = Inr (fst ?t, fst (snd ?t))"
    using None lines by (simp add: choose_wi_from_lines_def py_min_def)
  have nn: "(\<exists>u\<in>set lines. flt (?k u) PosInf) \<longrightarrow> \<not> isnan (fst (snd ?t))"
  proof (intro impI notI)
    assume "\<exists>u\<in>set lines. flt (?k u) PosInf" and "isnan (fst (snd ?t))"
    then obtain u where "u \<in> set lines" "flt (?k u) PosInf" "?k ?t = PosInf"
      by (auto simp: dist_key_def)
    with least show False by auto
  qed
  have le: "(\<exists>r. wavelength = Finite r) \<longrightarrow> (\<forall>u\<in>set lines. fle (?k ?t) (?k u))"
    using least by (auto intro!: not_flt_fle dist_key_finite_not_nan)
  show ?thesis
    using mem res none least nn le by (intro bexI[of _ ?t]) auto
next
  case (Some t)
  from find_first[OF Some] obtain pre post where
    t: "is_close wavelength t" "lines = pre @ t # post" "\<forall>u\<in>set pre. \<not> is_close wavelength u"
    by blast
  have "choose_wi_from_lines lines wavelength = Inr (fst t, fst (snd t))"
    using Some by (cases t) (simp add: choose_wi_from_lines_def)
  with t show ?thesis by (intro bexI[of _ t]) auto
qed

lemma example_nearest:
  "choose_wi_from_lines [(3, Finite 5000, ''5000''), (4, Finite 6000, ''6000'')] (Finite 5900)
     = Inr (4, Finite 6000) \<and>
   dist_key (Finite 5900) (4, Finite 6000, ''6000'') = Finite 100 \<and>
   dist_key (Finite 5900) (3, Finite 5000, ''5000'') = Finite 900 \<and>
   \<not> is_close (Finite 5900) (3, Finite 5000, ''5000'') \<and>
   \<not> is_close (Finite 5900) (4, Finite 6000, ''6000'')"
  by code_simp

lemma example_close:
  "choose_wi_from_lines [(3, Finite 5000, ''5000''), (4, Finite 6000, ''6000'')] (Finite 6000)
     = Inr (4, Finite 6000) \<and>
   is_close (Finite 6000) (4, Finite 6000, ''6000'') \<and>
   \<not> is_close (Finite 6000) (3, Finite 5000, ''5000'')"
  by code_simp

theorem choose_wi_first_close_or_nearest_witness:
  "[(3, Finite 5000, ''5000''), (4, Finite 6000, ''6000'')] \<noteq> ([] :: line list) \<and>
   choose_wi_from_lines [(3, Finite 5000, ''5000''), (4, Finite 6000, ''6000'')] (Finite 5900)
     = Inr (4, Finite 6000) \<and>
   \<not> is_close (Finite 5900) (3, Finite 5000, ''5000'') \<and>
   \<not> is_close (Finite 5900) (4, Finite 6000, ''6000'') \<and>
   fle (dist_key (Finite 5900) (4, Finite 6000, ''6000''))
       (dist_key (Finite 5900) (3, Finite 5000, ''5000'')) \<and>
   choose_wi_from_lines [(3, Finite 5000, ''5000''), (4, Finite 6000, ''6000'')] (Finite 6000)
     = Inr (4, Finite 6000) \<and>
   is_close (Finite 6000) (4, Finite 6000, ''6000'')"
  using choose_wi_first_close_or_nearest
          [of "[(3, Finite 5000, ''5000''), (4, Finite 6000, ''6000'')]" "Finite 5900"]
        choose_wi_first_close_or_nearest
          [of "[(3, Finite 5000, ''5000''), (4, Finite 6000, ''6000'')]" "Finite 6000"]
        example_nearest example_close
  by simp

text \<open>
  C2 as stated fails.  Take the dropdown texts \<open>5000.000000476837\<close> (index 1), which
  \<open>float\<close> reads as \<open>5000 + 2^-21\<close>, and \<open>5000.0\<close> (index 2), and the request \<open>5000\<close>.  The
  first loop returns line 1, at distance \<open>2^-21 < 1e-6\<close>, although line 2 is at distance 0.
\<close>

theorem choose_wi_nearest_counterexample:
  "py_float ''5000.000000476837'' = Some (Finite (5000 + 1 / 2 ^ 21)) \<and>
   py_float ''5000.0'' = Some (Finite 5000) \<and>
   choose_wi_from_lines
     [(1, Finite (5000 + 1 / 2 ^ 21), ''5000.000000476837''), (2, Finite 5000, ''5000.0'')]
     (Finite 5000)
     = Inr (1, Finite (5000 + 1 / 2 ^ 21)) \<and>
   dist_key (Finite 5000) (1, Finite (5000 + 1 / 2 ^ 21), ''5000.000000476837'')
     = Finite (1 / 2 ^ 21) \<and>
   dist_key (Finite 5000) (2, Finite 5000, ''5000.0'') = Finite 0 \<and>
   flt (Finite 0) (Finite (1 / 2 ^ 21))"
  by code_simp

text \<open>
  C10.  On a non-empty list the resolver returns a pair; when every wavelength is NaN it
  is the pair of the first line; a list that \<open>fetch_available_lines\<close> returns is never
  empty; and \<open>choose_wi_from_wavelength\<close> raises only what the fetch raised.
\<close>

theorem choose_wi_total:
  "(lines \<noteq> [] \<longrightarrow> (\<exists>r. choose_wi_from_lines lines wavelength = Inr r)) \<and>
   ((\<forall>u\<in>set (t # rest). isnan (fst (snd u))) \<longrightarrow>
      choose_wi_from_lines (t # rest) wavelength = Inr (fst t, fst (snd t))) \<and>
   (\<forall>fetched w'. fetch_available_lines w s element = (Inr fetched, w') \<longrightarrow> fetched \<noteq> []) \<and>
   (\<forall>e w'. choose_wi_from_wavelength w s element wavelength = (Inl e, w') \<longrightarrow>
      fetch_available_lines w s element = (Inl e, w'))"
proof (intro conjI impI allI)
  assume "lines \<noteq> []"
  then show "\<exists>r. choose_wi_from_lines lines wavelength = Inr r"
    by (rule choose_wi_from_lines_Inr)
next
  assume nan: "\<forall>u\<in>set (t # rest). isnan (fst (snd u))"
  then have "find (is_close wavelength) (t # rest) = None"
    by (auto simp: find_None_iff is_close_def)
  moreover have "min_loop (dist_key wavelength) t rest = t"
    using nan by (intro min_loop_keep) (auto simp: dist_key_def)
  ultimately show "choose_wi_from_lines (t # rest) wavelength = Inr (fst t, fst (snd t))"
    by (simp add: choose_wi_from_lines_def py_min_def)
next
  fix fetched w'
  assume "fetch_available_lines w s element = (Inr fetched, w')"
  then show "fetched \<noteq> []"
    by (rule fetch_available_lines_nonempty)
next
  fix e w'
  assume f: "choose_wi_from_wavelength w s element wavelength = (Inl e, w')"
  show "fetch_available_lines w s element = (Inl e, w')"
  proof (cases "fetch_available_lines w s element")
    case (Pair res w1)
    show ?thesis
    proof (cases res)
      case (Inl e1)
      with f Pair show ?thesis by (simp add: choose_wi_from_wavelength_def)
    next
      case (Inr fetched)
      with Pair have "fetched \<noteq> []"
        by (auto dest: fetch_available_lines_nonempty)
      then obtain r where "choose_wi_from_lines fetched wavelength = Inr r"
        using choose_wi_from_lines_Inr by blast
      with f Pair Inr show ?thesis by (simp add: choose_wi_from_wavelength_def)
    qed
  qed
qed

theorem choose_wi_total_witness:
  "choose_wi_from_lines [(1, NaN, ''a''), (2, NaN, ''b'')] (Finite 5000) = Inr (1, NaN) \<and>
   fst (fetch_available_lines (example_world (\<lambda>n. Inr (example_page None))) (make_session []) ''O'')
     = Inr [(3, Finite (15543 / 2), ''7771.5''), (4, Finite (31097 / 4), ''7774.25'')] \<and>
   [(3, Finite (15543 / 2), ''7771.5''), (4, Finite (31097 / 4), ''7774.25'')] \<noteq> ([] :: line list)"
  using choose_wi_total[of "[(1, NaN, ''a''), (2, NaN, ''b'')]" "Finite 5000" "(1, NaN, ''a'')"
       "[(2, NaN, ''b'')]" "example_world (\<lambda>n. Inr (example_page None))" "make_session []" "''O''"]
    example_fetch
  by (cases "fetch_available_lines (example_world (\<lambda>n. Inr (example_page None))) (make_session []) ''O''")
     (simp add: isnan_def)

section \<open>The header of the CSV\<close>

lemma cols_set: "set (concat (map (map fst) rows)) = {k. \<exists>r\<in>set rows. k \<in> fst ` set r}"
  by auto

lemma distinct_preferred: "distinct preferred"
  by (simp add: preferred_def)

text \<open>
  C5.  For a non-empty list of rows the header is the preferred names that occur as a key
  of some row, in their fixed order, followed by the other keys in strictly ascending
  order; it has no duplicate and its names are exactly the keys of the rows.
\<close>

theorem write_csv_header:
  assumes "rows \<noteq> []"
  shows "\<exists>c rest. write_csv rows out_path = Some c \<and>
     fieldnames c = filter (\<lambda>k. \<exists>r\<in>set rows. k \<in> fst ` set r) preferred @ rest \<and>
     sorted rest \<and> distinct rest \<and>
     set rest = {k. \<exists>r\<in>set rows. k \<in> fst ` set r} - set preferred \<and>
     distinct (fieldnames c) \<and>
     set (fieldnames c) = {k. \<exists>r\<in>set rows. k \<in> fst ` set r}"
proof -
  let ?cols = "set (concat (map (map fst) rows))"
  let ?rest = "filter (\<lambda>c. c \<notin> set preferred) (sorted_list_of_set ?cols)"
  let ?head = "filter (\<lambda>c. c \<in> ?cols) preferred"
  obtain c where c: "write_csv rows out_path = Some c" "fieldnames c = ?head @ ?rest"
    using assms by (simp add: write_csv_def Let_def)
  have fin: "finite ?cols" by simp
  have r1: "sorted ?rest" by (simp add: sorted_wrt_filter)
  have r2: "distinct ?rest" by simp
  have r3: "set ?rest = ?cols - set preferred" using fin by auto
  have h1: "distinct ?head" using distinct_preferred by simp
  have d: "distinct (?head @ ?rest)" using h1 r2 by auto
  have s: "set (?head @ ?rest) = ?cols" using fin by auto
  have hd: "?head = filter (\<lambda>k. \<exists>r\<in>set rows. k \<in> fst ` set r) preferred"
    by (rule filter_cong) auto
  show ?thesis
    using c r1 r2 r3 d s hd unfolding cols_set[symmetric] by (intro exI[of _ c] exI[of _ ?rest]) simp
qed

lemma example_csv:
  "write_csv [[(''A_LTE'', PFloat (Finite 8)), (''mode'', PStr ''lte''), (''zeta'', PInt 1),
               (''alpha'', PInt 2)],
              [(''mode'', PStr ''lte''), (''error'', PStr ''boom'')]] None =
     Some \<lparr>csv_path = None, fieldnames = [''mode'', ''A_LTE'', ''error'', ''alpha'', ''zeta''],
           records = [[Some (PStr ''lte''), Some (PFloat (Finite 8)), None, Some (PInt 2),
                       Some (PInt 1)],
                      [Some (PStr ''lte''), None, Some (PStr ''boom''), None, None]]\<rparr>"
  by code_simp

theorem write_csv_header_witness:
  "[[(''A_LTE'', PFloat (Finite 8)), (''mode'', PStr ''lte''), (''zeta'', PInt 1), (''alpha'', PInt 2)],
    [(''mode'', PStr ''lte''), (''error'', PStr ''boom'')]] \<noteq> ([] :: pydict list) \<and>
   map_option fieldnames
     (write_csv [[(''A_LTE'', PFloat (Finite 8)), (''mode'', PStr ''lte''), (''zeta'', PInt 1),
                  (''alpha'', PInt 2)],
                 [(''mode'', PStr ''lte''), (''error'', PStr ''boom'')]] None)
     = Some [''mode'', ''A_LTE'', ''error'', ''alpha'', ''zeta'']"
  using write_csv_header
          [of "[[(''A_LTE'', PFloat (Finite 8)), (''mode'', PStr ''lte''), (''zeta'', PInt 1),
                 (''alpha'', PInt 2)],
                [(''mode'', PStr ''lte''), (''error'', PStr ''boom'')]]" None]
        example_csv
  by simp

section \<open>The parser of the results block\<close>

lemma digit_facts:
  assumes "is_digit c"
  shows "\<not> is_space c" "c \<noteq> CHR ''_''" "c \<noteq> CHR ''.''" "c \<noteq> CHR ''e''" "c \<noteq> CHR ''E''"
    "c \<noteq> CHR ''-''" "c \<noteq> CHR ''+''" "lower_char c = c" "c \<noteq> CHR ''i''" "c \<noteq> CHR ''n''"
  using assms by (auto simp: is_digit_def is_space_def lower_char_def)

lemma strip_no_space: "\<forall>c\<in>set s. \<not> is_space c \<Longrightarrow> strip s = s"
proof -
  assume h: "\<forall>c\<in>set s. \<not> is_space c"
  have dw: "\<And>t. \<forall>c\<in>set t. \<not> is_space c \<Longrightarrow> dropWhile is_space t = t"
    by (case_tac t) auto
  have "dropWhile is_space s = s" using h by (rule dw)
  moreover have "dropWhile is_space (rev s) = rev s" using h by (intro dw) simp
  ultimately show ?thesis by (simp add: strip_def)
qed

lemma digitpart_run:
  "\<forall>c\<in>set ds. is_digit c \<Longrightarrow>
   rest = [] \<or> (\<not> is_digit (hd rest) \<and> hd rest \<noteq> CHR ''_'') \<Longrightarrow>
   digitpart (ds @ rest) = (ds, rest)"
proof (induction ds)
  case Nil
  then show ?case by (cases rest) auto
next
  case (Cons d ds)
  then have ih: "digitpart (ds @ rest) = (ds, rest)" by simp
  have d: "is_digit d" using Cons.prems by simp
  have hd: "ds @ rest = [] \<or> hd (ds @ rest) \<noteq> CHR ''_''"
    using Cons.prems by (cases ds) (auto dest: digit_facts(2))
  show ?case
  proof (cases "ds @ rest")
    case Nil
    with d show ?thesis by simp
  next
    case (Cons u t)
    with hd have "u \<noteq> CHR ''_''" by simp
    with d ih Cons show ?thesis
      by (cases t) auto
  qed
qed

lemma re_sign_cases:
  "re_sign s = (sg, r) \<Longrightarrow> s = sg @ r \<and> (sg = [] \<or> sg = ''-'' \<or> sg = ''+'')"
  by (auto simp: re_sign_def split: list.splits if_splits)

lemma re_digits_cases:
  "re_digits s = (ds, r) \<Longrightarrow>
   s = ds @ r \<and> (\<forall>c\<in>set ds. is_digit c) \<and> (r = [] \<or> \<not> is_digit (hd r))"
  by (auto simp: re_digits_def dest: set_takeWhileD hd_dropWhile)

lemma re_fraction_cases:
  "re_fraction s = (fr, r) \<Longrightarrow>
   s = fr @ r \<and>
   (fr = [] \<or> (\<exists>fs. fr = CHR ''.'' # fs \<and> fs \<noteq> [] \<and> (\<forall>c\<in>set fs. is_digit c)))"
proof (cases s)
  case Nil
  assume "re_fraction s = (fr, r)"
  with Nil show ?thesis by (simp add: re_fraction_def)
next
  case (Cons c cs)
  assume h: "re_fraction s = (fr, r)"
  obtain fs t where d: "re_digits cs = (fs, t)" by (cases "re_digits cs")
  from re_digits_cases[OF d] h Cons d show ?thesis
    by (auto simp: re_fraction_def split: if_splits)
qed

lemma re_exponent_cases:
  "re_exponent s = (ex, r) \<Longrightarrow>
   s = ex @ r \<and>
   (ex = [] \<or>
    (\<exists>c sg es. ex = c # sg @ es \<and> (c = CHR ''e'' \<or> c = CHR ''E'') \<and>
       (sg = [] \<or> sg = ''-'' \<or> sg = ''+'') \<and> es \<noteq> [] \<and> (\<forall>d\<in>set es. is_digit d)))"
proof (cases s)
  case Nil
  assume "re_exponent s = (ex, r)"
  with Nil show ?thesis by (simp add: re_exponent_def)
next
  case (Cons c cs)
  assume h: "re_exponent s = (ex, r)"
  obtain sg t where sg: "re_sign cs = (sg, t)" by (cases "re_sign cs")
  obtain es u where d: "re_digits t = (es, u)" by (cases "re_digits t")
  show ?thesis
  proof (cases "(c = CHR ''e'' \<or> c = CHR ''E'') \<and> es \<noteq> []")
    case True
    with h Cons sg d have ex: "ex = c # sg @ es" and r: "r = u"
      by (auto simp: re_exponent_def)
    from re_sign_cases[OF sg] re_digits_cases[OF d] ex r Cons True show ?thesis
      by auto
  next
    case False
    with h Cons sg d have "ex = []" "r = s"
      by (auto simp: re_exponent_def split: if_splits)
    then show ?thesis by simp
  qed
qed

lemma opt_sign_cases:
  "(sg = [] \<or> sg = ''-'' \<or> sg = ''+'') \<Longrightarrow> u \<noteq> [] \<Longrightarrow> is_digit (hd u) \<Longrightarrow>
   opt_sign (sg @ u) = (sg = ''-'', u)"
  by (cases u) (auto simp: opt_sign_def dest: digit_facts(6,7))

lemma float_exponent_ok:
  assumes "ex = [] \<or>
    (\<exists>c sg es. ex = c # sg @ es \<and> (c = CHR ''e'' \<or> c = CHR ''E'') \<and>
       (sg = [] \<or> sg = ''-'' \<or> sg = ''+'') \<and> es \<noteq> [] \<and> (\<forall>d\<in>set es. is_digit d))"
  shows "\<exists>k. float_exponent ex = Some k"
proof (cases "ex = []")
  case True
  then show ?thesis by (simp add: float_exponent_def)
next
  case False
  with assms obtain c sg es where
    ex: "ex = c # sg @ es" "c = CHR ''e'' \<or> c = CHR ''E''" "sg = [] \<or> sg = ''-'' \<or> sg = ''+''"
      "es \<noteq> []" "\<forall>d\<in>set es. is_digit d"
    by blast
  have "is_digit (hd es)" using ex(4,5) by (cases es) auto
  from opt_sign_cases[OF ex(3,4) this] have os: "opt_sign (sg @ es) = (sg = ''-'', es)" .
  have dp: "digitpart es = (es, [])" using digitpart_run[of es "[]"] ex(5) by simp
  show ?thesis using ex(1,2,4) os dp by (auto simp: float_exponent_def)
qed

lemma not_digit_chars:
  "\<not> is_digit CHR ''e''" "\<not> is_digit CHR ''E''" "\<not> is_digit CHR ''.''"
  "\<not> is_space CHR ''e''" "\<not> is_space CHR ''E''" "\<not> is_space CHR ''.''"
  "\<not> is_space CHR ''-''" "\<not> is_space CHR ''+''"
  by (simp_all add: is_digit_def is_space_def)

lemma float_number_ok:
  assumes "ds \<noteq> []" and "\<forall>c\<in>set ds. is_digit c"
    and "fr = [] \<or> (\<exists>fs. fr = CHR ''.'' # fs \<and> fs \<noteq> [] \<and> (\<forall>c\<in>set fs. is_digit c))"
    and "ex = [] \<or>
      (\<exists>c sg es. ex = c # sg @ es \<and> (c = CHR ''e'' \<or> c = CHR ''E'') \<and>
         (sg = [] \<or> sg = ''-'' \<or> sg = ''+'') \<and> es \<noteq> [] \<and> (\<forall>d\<in>set es. is_digit d))"
  shows "\<exists>x. float_number (ds @ fr @ ex) = Some x"
proof -
  from float_exponent_ok[OF assms(4)] obtain k where k: "float_exponent ex = Some k" by blast
  have exhd: "ex = [] \<or> (\<not> is_digit (hd ex) \<and> hd ex \<noteq> CHR ''_'' \<and> hd ex \<noteq> CHR ''.'')"
  proof (cases "ex = []")
    case True
    then show ?thesis by simp
  next
    case False
    with assms(4) obtain c t where "ex = c # t" "c = CHR ''e'' \<or> c = CHR ''E''" by blast
    then show ?thesis using not_digit_chars(1,2) by auto
  qed
  show ?thesis
  proof (cases "fr = []")
    case True
    have dp: "digitpart (ds @ ex) = (ds, ex)"
      using digitpart_run[OF assms(2), of ex] exhd by blast
    show ?thesis
    proof (cases ex)
      case Nil
      have "float_number ds = Some (decimal_value ds [] 0)"
        unfolding float_number_def using dp[unfolded Nil] assms(1) by simp
      with True Nil show ?thesis by simp
    next
      case (Cons c t)
      with exhd have c: "c \<noteq> CHR ''.''" by simp
      have "float_number (ds @ c # t) = map_option (decimal_value ds []) (float_exponent (c # t))"
        unfolding float_number_def using dp[unfolded Cons] assms(1) c by simp
      with True Cons k show ?thesis by simp
    qed
  next
    case False
    with assms(3) obtain fs where
      fr: "fr = CHR ''.'' # fs" "fs \<noteq> []" "\<forall>c\<in>set fs. is_digit c" by blast
    have d1: "digitpart (ds @ CHR ''.'' # fs @ ex) = (ds, CHR ''.'' # fs @ ex)"
      using digitpart_run[OF assms(2), of "CHR ''.'' # fs @ ex"] not_digit_chars(3) by simp
    have d2: "digitpart (fs @ ex) = (fs, ex)"
      using digitpart_run[OF fr(3), of ex] exhd by blast
    have "float_number (ds @ CHR ''.'' # fs @ ex) = map_option (decimal_value ds fs) (float_exponent ex)"
      unfolding float_number_def using d1 d2 fr(2) by simp
    with fr(1) k show ?thesis by simp
  qed
qed

lemma py_float_ok:
  assumes "sg = [] \<or> sg = ''-'' \<or> sg = ''+''"
    and "ds \<noteq> []" and "\<forall>c\<in>set ds. is_digit c"
    and "fr = [] \<or> (\<exists>fs. fr = CHR ''.'' # fs \<and> fs \<noteq> [] \<and> (\<forall>c\<in>set fs. is_digit c))"
    and "ex = [] \<or>
      (\<exists>c sg es. ex = c # sg @ es \<and> (c = CHR ''e'' \<or> c = CHR ''E'') \<and>
         (sg = [] \<or> sg = ''-'' \<or> sg = ''+'') \<and> es \<noteq> [] \<and> (\<forall>d\<in>set es. is_digit d))"
  shows "\<exists>x. py_float (sg @ ds @ fr @ ex) = Some x"
proof -
  have n1: "\<forall>c\<in>set sg. \<not> is_space c"
    using assms(1) not_digit_chars(7,8) by auto
  have n2: "\<forall>c\<in>set ds. \<not> is_space c"
    using assms(3) digit_facts(1) by blast
  have n3: "\<forall>c\<in>set fr. \<not> is_space c"
  proof (cases "fr = []")
    case True
    then show ?thesis by simp
  next
    case False
    with assms(4) obtain fs where "fr = CHR ''.'' # fs" "\<forall>c\<in>set fs. is_digit c" by blast
    then show ?thesis using not_digit_chars(6) digit_facts(1) by auto
  qed
  have n4: "\<forall>c\<in>set ex. \<not> is_space c"
  proof (cases "ex = []")
    case True
    then show ?thesis by simp
  next
    case False
    with assms(5) obtain c sg' es where
      ex: "ex = c # sg' @ es" "c = CHR ''e'' \<or> c = CHR ''E''" "sg' = [] \<or> sg' = ''-'' \<or> sg' = ''+''"
        "\<forall>d\<in>set es. is_digit d"
      by blast
    have "\<not> is_space c" using ex(2) not_digit_chars(4,5) by blast
    moreover have "\<forall>d\<in>set sg'. \<not> is_space d" using ex(3) not_digit_chars(7,8) by auto
    moreover have "\<forall>d\<in>set es. \<not> is_space d" using ex(4) digit_facts(1) by blast
    ultimately show ?thesis using ex(1) by auto
  qed
  have "\<forall>c\<in>set (sg @ ds @ fr @ ex). \<not> is_space c"
    using n1 n2 n3 n4 by auto
  then have st: "strip (sg @ ds @ fr @ ex) = sg @ ds @ fr @ ex" by (rule strip_no_space)
  obtain d t where ds: "ds = d # t" "is_digit d" using assms(2,3) by (cases ds) auto
  have "ds @ fr @ ex \<noteq> []" "is_digit (hd (ds @ fr @ ex))" using ds by simp_all
  from opt_sign_cases[OF assms(1) this]
  have os: "opt_sign (sg @ ds @ fr @ ex) = (sg = ''-'', ds @ fr @ ex)" .
  have lw: "lower (ds @ fr @ ex) = d # lower (t @ fr @ ex)"
    using ds by (simp add: lower_def digit_facts(8))
  have notspecial: "lower (ds @ fr @ ex) \<noteq> ''inf''" "lower (ds @ fr @ ex) \<noteq> ''infinity''"
    "lower (ds @ fr @ ex) \<noteq> ''nan''"
    unfolding lw using digit_facts(9,10)[OF ds(2)] by simp_all
  from float_number_ok[OF assms(2-5)] obtain x where x: "float_number (ds @ fr @ ex) = Some x" by blast
  have "py_float (sg @ ds @ fr @ ex) = Some (round_double (if sg = ''-'' then - x else x))"
    unfolding py_float_def st os using notspecial x by simp
  then show ?thesis by blast
qed

lemma match_at_float: "match_at s = Some (m, r) \<Longrightarrow> \<exists>x. py_float m = Some x"
proof -
  assume h: "match_at s = Some (m, r)"
  obtain sg r0 where s0: "re_sign s = (sg, r0)" by (cases "re_sign s")
  obtain ds r1 where s1: "re_digits r0 = (ds, r1)" by (cases "re_digits r0")
  obtain fr r2 where s2: "re_fraction r1 = (fr, r2)" by (cases "re_fraction r1")
  obtain ex r3 where s3: "re_exponent r2 = (ex, r3)" by (cases "re_exponent r2")
  from h s0 s1 s2 s3 have ne: "ds \<noteq> []" and m: "m = sg @ ds @ fr @ ex"
    by (auto simp: match_at_def split: if_splits)
  from re_sign_cases[OF s0] re_digits_cases[OF s1] re_fraction_cases[OF s2] re_exponent_cases[OF s3]
  show ?thesis unfolding m by (intro py_float_ok) (use ne in blast)+
qed

lemma findall_float: "\<forall>m\<in>set (findall s). \<exists>x. py_float m = Some x"
proof (induction s rule: findall.induct)
  case 1
  then show ?case by simp
next
  case (2 c cs)
  show ?case
  proof (cases "match_at (c # cs)")
    case None
    with 2 show ?thesis by simp
  next
    case (Some p)
    obtain m r where p: "p = (m, r)" by (cases p)
    with Some 2 match_at_float[of "c # cs" m r] show ?thesis by simp
  qed
qed

lemma those_map_Some:
  "\<forall>m\<in>set ms. \<exists>x. f m = Some x \<Longrightarrow> \<exists>xs. those (map f ms) = Some xs \<and> map f ms = map Some xs"
proof (induction ms)
  case Nil
  then show ?case by simp
next
  case (Cons m ms)
  then obtain x xs where "f m = Some x" "those (map f ms) = Some xs" "map f ms = map Some xs"
    by auto
  then show ?case by (intro exI[of _ "x # xs"]) simp
qed

lemma findall_nums: "\<exists>nums. those (map py_float (findall s)) = Some nums \<and>
    map py_float (findall s) = map Some nums"
  using those_map_Some[OF findall_float] .

lemma search_iff_digit: "search s \<noteq> None \<longleftrightarrow> (\<exists>c\<in>set s. is_digit c)"
proof -
  have "findall s = [] \<longleftrightarrow> (\<forall>c\<in>set s. \<not> is_digit c)"
  proof (induction s rule: findall.induct)
    case 1
    then show ?case by simp
  next
    case (2 c cs)
    show ?case
    proof (cases "match_at (c # cs)")
      case None
      have "\<not> is_digit c"
      proof
        assume d: "is_digit c"
        then have "re_sign (c # cs) = ([], c # cs)"
          by (auto simp: re_sign_def dest: digit_facts(6,7))
        with d have "match_at (c # cs) \<noteq> None"
          by (auto simp: match_at_def re_digits_def split: prod.splits)
        with None show False by simp
      qed
      with None 2 show ?thesis by simp
    next
      case (Some p)
      obtain m r where p: "p = (m, r)" by (cases p)
      obtain sg r0 where s0: "re_sign (c # cs) = (sg, r0)" by (cases "re_sign (c # cs)")
      from Some p s0 have "takeWhile is_digit r0 \<noteq> []"
        by (auto simp: match_at_def re_digits_def split: if_splits prod.splits)
      then obtain d where "d \<in> set r0" "is_digit d"
        by (cases r0) (auto split: if_splits)
      moreover from re_sign_cases[OF s0] have "set r0 \<subseteq> set (c # cs)" by auto
      ultimately have "\<exists>c'\<in>set (c # cs). is_digit c'" by blast
      with Some p show ?thesis by auto
    qed
  qed
  then show ?thesis by (auto simp: search_def split: list.splits)
qed

lemma find_last:
  "P v \<Longrightarrow> \<forall>u\<in>set post. \<not> P u \<Longrightarrow> find P (rev (pre @ v # post)) = Some v"
proof -
  assume v: "P v" and post: "\<forall>u\<in>set post. \<not> P u"
  have app: "find P (xs @ ys) = find P ys" if "\<forall>u\<in>set xs. \<not> P u" for xs ys
    using that by (induction xs) auto
  from app[of "rev post" "v # rev pre"] post v show ?thesis by simp
qed

lemma str_in_ew_sep:
  "str_in ''ew'' (x @ CHR 0x0A # y) = (str_in ''ew'' x \<or> str_in ''ew'' y)"
proof (induction x)
  case Nil
  then show ?case by simp
next
  case (Cons c x)
  then show ?case by (cases x) auto
qed

lemma lower_newline: "lower (x @ CHR 0x0A # y) = lower x @ CHR 0x0A # lower y"
  by (simp add: lower_def lower_char_def)

lemma header_ew:
  "str_in ''ew'' (lower (join [CHR 0x0A] (take 2 lines))) \<longleftrightarrow>
   (\<exists>l\<in>set (take 2 lines). str_in ''ew'' (lower l))"
proof (cases lines)
  case Nil
  then show ?thesis by (simp add: lower_def)
next
  case (Cons x t)
  show ?thesis
  proof (cases t)
    case Nil
    with Cons show ?thesis by simp
  next
    case (Cons y u)
    with \<open>lines = x # t\<close> have "take 2 lines = [x, y]" by (simp add: numeral_2_eq_2)
    then show ?thesis by (simp add: lower_newline str_in_ew_sep)
  qed
qed

text \<open>
  C1.  Let the block be present and let \<open>lines\<close>, its lines that are not blank, be
  non-empty.  If no line holds a digit, the parser raises.  Otherwise the value line is the
  last line that holds a digit; each match of the pattern in it converts to a float, and
  with \<open>nums\<close> the floats in order, the parser returns the first five under \<open>EW_mA\<close>, \<open>A_LTE\<close>,
  \<open>A_NLTE\<close>, \<open>Delta\<close>, \<open>OFe_NLTE\<close> when one of the first two lines, in lower case, contains
  \<open>ew\<close> and there are at least five, or when there are exactly five; four under \<open>A_LTE\<close>,
  \<open>A_NLTE\<close>, \<open>Delta\<close>, \<open>OFe_NLTE\<close>; three under \<open>A_LTE\<close>, \<open>A_NLTE\<close>, \<open>Delta\<close>; and raises
  otherwise.  Nothing is written to stderr when the block is present, so what that write
  would raise plays no part.
\<close>

theorem parse_pre_block_fields:
  assumes "find_pre html = Some text"
    and "lines = filter (\<lambda>ln. strip ln \<noteq> []) (splitlines text)"
    and "lines \<noteq> []"
  shows "((\<forall>ln\<in>set lines. \<forall>c\<in>set ln. \<not> is_digit c) \<longrightarrow>
            parse_pre_block stderr_raises html =
              Inl (Exc ''RuntimeError'' ''Could not locate numeric result line.'')) \<and>
     (\<forall>pre value_line post.
        lines = pre @ value_line # post \<and> (\<exists>c\<in>set value_line. is_digit c) \<and>
        (\<forall>ln\<in>set post. \<forall>c\<in>set ln. \<not> is_digit c) \<longrightarrow>
        (\<exists>nums. map py_float (findall value_line) = map Some nums \<and>
           parse_pre_block stderr_raises html =
             (if ((\<exists>l\<in>set (take 2 lines). str_in ''ew'' (lower l)) \<and> 5 \<le> length nums) \<or>
                 length nums = 5
              then Inr [(''EW_mA'', PFloat (nums ! 0)), (''A_LTE'', PFloat (nums ! 1)),
                        (''A_NLTE'', PFloat (nums ! 2)), (''Delta'', PFloat (nums ! 3)),
                        (''OFe_NLTE'', PFloat (nums ! 4))]
              else if length nums = 4
              then Inr [(''A_LTE'', PFloat (nums ! 0)), (''A_NLTE'', PFloat (nums ! 1)),
                        (''Delta'', PFloat (nums ! 2)), (''OFe_NLTE'', PFloat (nums ! 3))]
              else if length nums = 3
              then Inr [(''A_LTE'', PFloat (nums ! 0)), (''A_NLTE'', PFloat (nums ! 1)),
                        (''Delta'', PFloat (nums ! 2))]
              else Inl (Exc ''RuntimeError''
                          (''Unrecognized numeric format in result line: '' @ value_line)))))"
proof (intro conjI impI allI)
  assume "\<forall>ln\<in>set lines. \<forall>c\<in>set ln. \<not> is_digit c"
  then have "\<forall>ln\<in>set lines. search ln = None"
    using search_iff_digit by blast
  then have "find (\<lambda>ln. search ln \<noteq> None) (rev lines) = None"
    by (simp add: find_None_iff)
  then show "parse_pre_block stderr_raises html =
      Inl (Exc ''RuntimeError'' ''Could not locate numeric result line.'')"
    using assms unfolding parse_pre_block_def Let_def by simp
next
  fix pre value_line post
  assume h: "lines = pre @ value_line # post \<and> (\<exists>c\<in>set value_line. is_digit c) \<and>
        (\<forall>ln\<in>set post. \<forall>c\<in>set ln. \<not> is_digit c)"
  then have "search value_line \<noteq> None" and "\<forall>u\<in>set post. \<not> search u \<noteq> None"
    by (simp_all only: search_iff_digit) blast+
  from find_last[of "\<lambda>ln. search ln \<noteq> None", OF this, of pre] h
  have f: "find (\<lambda>ln. search ln \<noteq> None) (rev lines) = Some value_line" by simp
  from findall_nums[of value_line] obtain nums where
    nums: "those (map py_float (findall value_line)) = Some nums"
          "map py_float (findall value_line) = map Some nums"
    by blast
  have "parse_pre_block stderr_raises html =
             (if ((\<exists>l\<in>set (take 2 lines). str_in ''ew'' (lower l)) \<and> 5 \<le> length nums) \<or>
                 length nums = 5
              then Inr [(''EW_mA'', PFloat (nums ! 0)), (''A_LTE'', PFloat (nums ! 1)),
                        (''A_NLTE'', PFloat (nums ! 2)), (''Delta'', PFloat (nums ! 3)),
                        (''OFe_NLTE'', PFloat (nums ! 4))]
              else if length nums = 4
              then Inr [(''A_LTE'', PFloat (nums ! 0)), (''A_NLTE'', PFloat (nums ! 1)),
                        (''Delta'', PFloat (nums ! 2)), (''OFe_NLTE'', PFloat (nums ! 3))]
              else if length nums = 3
              then Inr [(''A_LTE'', PFloat (nums ! 0)), (''A_NLTE'', PFloat (nums ! 1)),
                        (''Delta'', PFloat (nums ! 2))]
              else Inl (Exc ''RuntimeError''
                          (''Unrecognized numeric format in result line: '' @ value_line)))"
    unfolding parse_pre_block_def Let_def assms(1) option.case assms(2)[symmetric] f nums(1)
      header_ew
    using assms(3) by simp
  with nums(2) show "\<exists>nums. map py_float (findall value_line) = map Some nums \<and>
           parse_pre_block stderr_raises html =
             (if ((\<exists>l\<in>set (take 2 lines). str_in ''ew'' (lower l)) \<and> 5 \<le> length nums) \<or>
                 length nums = 5
              then Inr [(''EW_mA'', PFloat (nums ! 0)), (''A_LTE'', PFloat (nums ! 1)),
                        (''A_NLTE'', PFloat (nums ! 2)), (''Delta'', PFloat (nums ! 3)),
                        (''OFe_NLTE'', PFloat (nums ! 4))]
              else if length nums = 4
              then Inr [(''A_LTE'', PFloat (nums ! 0)), (''A_NLTE'', PFloat (nums ! 1)),
                        (''Delta'', PFloat (nums ! 2)), (''OFe_NLTE'', PFloat (nums ! 3))]
              else if length nums = 3
              then Inr [(''A_LTE'', PFloat (nums ! 0)), (''A_NLTE'', PFloat (nums ! 1)),
                        (''Delta'', PFloat (nums ! 2))]
              else Inl (Exc ''RuntimeError''
                          (''Unrecognized numeric format in result line: '' @ value_line)))"
    by blast
qed

lemma example_block_lines:
  "filter (\<lambda>ln. strip ln \<noteq> []) (splitlines example_block) =
     [''EW  A(O) LTE  A(O) NLTE  Delta  [O/Fe] NLTE'', ''65  8.5     8.25      -0.25 -0.125'']"
  by code_simp

lemma example_block_parse:
  "parse_pre_block None (soup (example_page (Some example_block))) =
     Inr [(''EW_mA'', PFloat (Finite 65)), (''A_LTE'', PFloat (Finite (17 / 2))),
          (''A_NLTE'', PFloat (Finite (33 / 4))), (''Delta'', PFloat (Finite (- 1 / 4))),
          (''OFe_NLTE'', PFloat (Finite (- 1 / 8)))]"
  by code_simp

theorem parse_pre_block_fields_witness:
  "find_pre (soup (example_page (Some example_block))) = Some example_block \<and>
   filter (\<lambda>ln. strip ln \<noteq> []) (splitlines example_block) =
     [''EW  A(O) LTE  A(O) NLTE  Delta  [O/Fe] NLTE'', ''65  8.5     8.25      -0.25 -0.125''] \<and>
   CHR ''6'' \<in> set ''65  8.5     8.25      -0.25 -0.125'' \<and> is_digit CHR ''6'' \<and>
   parse_pre_block None (soup (example_page (Some example_block))) =
     Inr [(''EW_mA'', PFloat (Finite 65)), (''A_LTE'', PFloat (Finite (17 / 2))),
          (''A_NLTE'', PFloat (Finite (33 / 4))), (''Delta'', PFloat (Finite (- 1 / 4))),
          (''OFe_NLTE'', PFloat (Finite (- 1 / 8)))]"
proof -
  let ?l1 = "''EW  A(O) LTE  A(O) NLTE  Delta  [O/Fe] NLTE''"
  let ?l2 = "''65  8.5     8.25      -0.25 -0.125''"
  have h1: "find_pre (soup (example_page (Some example_block))) = Some example_block"
    by (simp add: example_page_def)
  have h2: "[?l1, ?l2] = filter (\<lambda>ln. strip ln \<noteq> []) (splitlines example_block)"
    using example_block_lines by simp
  have h3: "[?l1, ?l2] \<noteq> []" by simp
  have d: "CHR ''6'' \<in> set ?l2" "is_digit CHR ''6''" by (simp_all add: is_digit_def)
  have v: "[?l1, ?l2] = [?l1] @ ?l2 # [] \<and> (\<exists>c\<in>set ?l2. is_digit c) \<and>
      (\<forall>ln\<in>set []. \<forall>c\<in>set ln. \<not> is_digit c)"
    using d by auto
  from parse_pre_block_fields[OF h1 h2 h3, THEN conjunct2, rule_format, OF v]
  have "\<exists>nums. map py_float (findall ?l2) = map Some nums" by blast
  with h1 example_block_lines d example_block_parse show ?thesis by blast
qed

section \<open>The loop of the main program\<close>

lemma query_A_from_e_eq:
  assumes "arg_mode a = EW"
  shows "query_A_from_e w (arg_element a) v (arg_teff a) (arg_logg a) (arg_feh a) (arg_vt a) wi s =
     (query_outcome EW (output_raises w StderrNoPre (Suc (length (sent w))))
        (server w (length (sent w)) (query_request a wi v)),
      w\<lparr>sent := sent w @ [query_request a wi v]\<rparr>)"
  using assms
  by (simp add: query_A_from_e_def query_outcome_def query_request_def session_get_def Let_def
           write_raises_def split: sum.splits prod.splits)

lemma query_nlte_from_lte_eq:
  assumes "arg_mode a = LTE"
  shows "query_nlte_from_lte w (arg_element a) v (arg_teff a) (arg_logg a) (arg_feh a) (arg_vt a) wi s =
     (query_outcome LTE (output_raises w StderrNoPre (Suc (length (sent w))))
        (server w (length (sent w)) (query_request a wi v)),
      w\<lparr>sent := sent w @ [query_request a wi v]\<rparr>)"
  using assms
  by (simp add: query_nlte_from_lte_def query_outcome_def query_request_def session_get_def Let_def
           write_raises_def split: sum.splits prod.splits)

text \<open>
  One turn of the loop logs one request, and what it appends or raises is \<open>value_rows\<close> of
  the reply to that request and of what the writes raise once the request is logged.
\<close>

lemma try_value_eq:
  "try_value w s a wi mw v =
     (value_rows a wi mw v (server w (length (sent w)) (query_request a wi v))
        (\<lambda>place. output_raises w place (Suc (length (sent w)))),
      w\<lparr>sent := sent w @ [query_request a wi v]\<rparr>)"
proof (cases "arg_mode a")
  case EW
  show ?thesis
    unfolding try_value_def value_rows_def except_clause_def
    by (simp add: EW query_A_from_e_eq[OF EW] write_raises_def Let_def
             split: sum.splits option.splits)
next
  case LTE
  show ?thesis
    unfolding try_value_def value_rows_def except_clause_def
    by (simp add: LTE query_nlte_from_lte_eq[OF LTE] write_raises_def Let_def
             split: sum.splits option.splits)
qed

text \<open>The loop changes the world only by the requests it logs, one per value it reaches.\<close>

lemma main_loop_sent:
  "main_loop w s a wi mw vs rows = (res, w') \<Longrightarrow>
   \<exists>n\<le>length vs. (vs \<noteq> [] \<longrightarrow> 1 \<le> n) \<and>
      w' = w\<lparr>sent := sent w @ map (query_request a wi) (take n vs)\<rparr>"
proof (induction vs arbitrary: w rows)
  case Nil
  then show ?case by simp
next
  case (Cons v vs)
  let ?w1 = "w\<lparr>sent := sent w @ [query_request a wi v]\<rparr>"
  let ?out = "value_rows a wi mw v (server w (length (sent w)) (query_request a wi v))
                (\<lambda>place. output_raises w place (Suc (length (sent w))))"
  have one: "\<exists>n\<le>length (v # vs). (v # vs \<noteq> [] \<longrightarrow> 1 \<le> n) \<and>
      w' = w\<lparr>sent := sent w @ map (query_request a wi) (take n (v # vs))\<rparr>" if "w' = ?w1"
    using that by (intro exI[of _ 1]) simp
  show ?case
  proof (cases ?out)
    case (Inl exc)
    with Cons.prems have "w' = ?w1" by (simp add: try_value_eq)
    then show ?thesis by (rule one)
  next
    case (Inr seg)
    show ?thesis
    proof (cases "sleep_raises w (arg_sleep a)")
      case (Some p)
      with Inr Cons.prems have "w' = ?w1" by (cases p) (simp add: try_value_eq)
      then show ?thesis by (rule one)
    next
      case None
      with Inr Cons.prems have "main_loop ?w1 s a wi mw vs (rows @ seg) = (res, w')"
        by (simp add: try_value_eq)
      from Cons.IH[OF this] obtain n where
        n: "n \<le> length vs" "w' = ?w1\<lparr>sent := sent ?w1 @ map (query_request a wi) (take n vs)\<rparr>"
        by blast
      then have "w' = w\<lparr>sent := sent w @ map (query_request a wi) (take (Suc n) (v # vs))\<rparr>"
        by simp
      with n(1) show ?thesis by (intro exI[of _ "Suc n"]) simp
    qed
  qed
qed

text \<open>
  When the loop runs to its end it has sent one request per value, and its rows are the
  rows it started with followed by the rows of each value in turn, those of the \<open>k\<close>-th
  value being what \<open>value_rows\<close> makes of the reply to the \<open>k\<close>-th request.
\<close>

lemma main_loop_Inr:
  "main_loop w s a wi mw vs rows = (Inr rs, w') \<Longrightarrow>
   w' = w\<lparr>sent := sent w @ map (query_request a wi) vs\<rparr> \<and>
   (\<exists>segs. length segs = length vs \<and> rs = rows @ concat segs \<and>
      (\<forall>k<length vs.
         value_rows a wi mw (vs ! k) (server w (length (sent w) + k) (query_request a wi (vs ! k)))
           (\<lambda>place. output_raises w place (Suc (length (sent w) + k)))
         = Inr (segs ! k)))"
proof (induction vs arbitrary: w rows)
  case Nil
  then show ?case by simp
next
  case (Cons v vs)
  let ?w1 = "w\<lparr>sent := sent w @ [query_request a wi v]\<rparr>"
  from Cons.prems obtain seg where
    seg: "value_rows a wi mw v (server w (length (sent w)) (query_request a wi v))
            (\<lambda>place. output_raises w place (Suc (length (sent w)))) = Inr seg"
    and rest: "main_loop ?w1 s a wi mw vs (rows @ seg) = (Inr rs, w')"
    by (auto simp: try_value_eq split: sum.splits option.splits)
  from Cons.IH[OF rest] obtain segs where
    w': "w' = ?w1\<lparr>sent := sent ?w1 @ map (query_request a wi) vs\<rparr>" and
    len: "length segs = length vs" and
    rs: "rs = (rows @ seg) @ concat segs" and
    ih: "\<forall>k<length vs.
      value_rows a wi mw (vs ! k) (server ?w1 (length (sent ?w1) + k) (query_request a wi (vs ! k)))
        (\<lambda>place. output_raises ?w1 place (Suc (length (sent ?w1) + k)))
        = Inr (segs ! k)"
    by blast
  have "\<forall>k<length (v # vs).
      value_rows a wi mw ((v # vs) ! k)
        (server w (length (sent w) + k) (query_request a wi ((v # vs) ! k)))
        (\<lambda>place. output_raises w place (Suc (length (sent w) + k)))
        = Inr ((seg # segs) ! k)"
  proof (intro allI impI)
    fix k assume k: "k < length (v # vs)"
    show "value_rows a wi mw ((v # vs) ! k)
        (server w (length (sent w) + k) (query_request a wi ((v # vs) ! k)))
        (\<lambda>place. output_raises w place (Suc (length (sent w) + k)))
        = Inr ((seg # segs) ! k)"
    proof (cases k)
      case 0
      with seg show ?thesis by simp
    next
      case (Suc j)
      with k have "j < length vs" by simp
      with ih have "value_rows a wi mw (vs ! j)
        (server ?w1 (length (sent ?w1) + j) (query_request a wi (vs ! j)))
        (\<lambda>place. output_raises ?w1 place (Suc (length (sent ?w1) + j)))
        = Inr (segs ! j)" by blast
      with Suc show ?thesis by simp
    qed
  qed
  moreover have "length (seg # segs) = length (v # vs)" using len by simp
  moreover have "rs = rows @ concat (seg # segs)" using rs by simp
  ultimately have "\<exists>segs'. length segs' = length (v # vs) \<and> rs = rows @ concat segs' \<and>
      (\<forall>k<length (v # vs).
         value_rows a wi mw ((v # vs) ! k)
           (server w (length (sent w) + k) (query_request a wi ((v # vs) ! k)))
           (\<lambda>place. output_raises w place (Suc (length (sent w) + k)))
         = Inr (segs' ! k))"
    by blast
  moreover have "w' = w\<lparr>sent := sent w @ map (query_request a wi) (v # vs)\<rparr>"
    using w' by simp
  ultimately show ?case by blast
qed

text \<open>Conversely, when every value gets rows and sleeping never raises, the loop runs to its end.\<close>

lemma main_loop_completes:
  "\<forall>k<length vs. \<exists>seg.
      value_rows a wi mw (vs ! k) (server w (length (sent w) + k) (query_request a wi (vs ! k)))
        (\<lambda>place. output_raises w place (Suc (length (sent w) + k)))
        = Inr seg \<Longrightarrow>
   sleep_raises w (arg_sleep a) = None \<Longrightarrow>
   \<exists>rs w'. main_loop w s a wi mw vs rows = (Inr rs, w')"
proof (induction vs arbitrary: w rows)
  case Nil
  then show ?case by simp
next
  case (Cons v vs)
  let ?w1 = "w\<lparr>sent := sent w @ [query_request a wi v]\<rparr>"
  from Cons.prems(1) have "\<exists>seg. value_rows a wi mw ((v # vs) ! 0)
      (server w (length (sent w) + 0) (query_request a wi ((v # vs) ! 0)))
      (\<lambda>place. output_raises w place (Suc (length (sent w) + 0))) = Inr seg"
    by blast
  then obtain seg where
    seg: "value_rows a wi mw v (server w (length (sent w)) (query_request a wi v))
            (\<lambda>place. output_raises w place (Suc (length (sent w)))) = Inr seg"
    by auto
  have "\<forall>k<length vs. \<exists>seg.
      value_rows a wi mw (vs ! k) (server ?w1 (length (sent ?w1) + k) (query_request a wi (vs ! k)))
        (\<lambda>place. output_raises ?w1 place (Suc (length (sent ?w1) + k)))
        = Inr seg"
  proof (intro allI impI)
    fix k assume "k < length vs"
    then have "Suc k < length (v # vs)" by simp
    with Cons.prems(1) have "\<exists>seg. value_rows a wi mw ((v # vs) ! Suc k)
      (server w (length (sent w) + Suc k) (query_request a wi ((v # vs) ! Suc k)))
      (\<lambda>place. output_raises w place (Suc (length (sent w) + Suc k))) = Inr seg"
      by blast
    then show "\<exists>seg. value_rows a wi mw (vs ! k)
      (server ?w1 (length (sent ?w1) + k) (query_request a wi (vs ! k)))
      (\<lambda>place. output_raises ?w1 place (Suc (length (sent ?w1) + k))) = Inr seg"
      by simp
  qed
  moreover have "sleep_raises ?w1 (arg_sleep a) = None" using Cons.prems(2) by simp
  ultimately obtain rs w' where "main_loop ?w1 s a wi mw vs (rows @ seg) = (Inr rs, w')"
    using Cons.IH[of ?w1 "rows @ seg"] by blast
  with seg Cons.prems(2) show ?case by (simp add: try_value_eq)
qed

lemma map_of_dict_update:
  "map_of (dict_update d kvs) = foldl (\<lambda>m kv. m(fst kv \<mapsto> snd kv)) (map_of d) kvs"
  unfolding dict_update_def
  by (induction kvs arbitrary: d) (simp_all add: update_conv')

lemma parse_pre_block_keys:
  "parse_pre_block err html = Inr out \<Longrightarrow>
   fst ` set out \<subseteq> {''EW_mA'', ''A_LTE'', ''A_NLTE'', ''Delta'', ''OFe_NLTE''}"
  unfolding parse_pre_block_def Let_def
  by (auto split: option.splits if_splits)

lemma parse_pre_block_Inl:
  "parse_pre_block err html = Inl e \<Longrightarrow>
   is_Exception e \<or> (find_pre html = None \<and> err = None \<and> e = SystemExit 1)"
  unfolding parse_pre_block_def Let_def
  by (auto split: option.splits if_splits)

lemma parse_pre_block_no_pre:
  "find_pre html = None \<Longrightarrow> parse_pre_block None html = Inl (SystemExit 1)"
  by (simp add: parse_pre_block_def)

lemma parse_pre_block_pre:
  "find_pre html \<noteq> None \<Longrightarrow> parse_pre_block err html = parse_pre_block None html"
  by (auto simp: parse_pre_block_def)

lemma query_outcome_Inl:
  "query_outcome m err reply = Inl e \<Longrightarrow>
   is_Exception e \<or>
   (e = SystemExit 1 \<and> err = None \<and>
    (\<exists>r. reply = Inr r \<and> \<not> (400 \<le> status_code r \<and> status_code r < 600) \<and> find_pre (soup r) = None))"
  unfolding query_outcome_def raise_for_status_def
  by (auto split: sum.splits prod.splits if_splits dest: parse_pre_block_Inl)

lemma query_outcome_no_pre:
  "reply = Inr r \<Longrightarrow> \<not> (400 \<le> status_code r \<and> status_code r < 600) \<Longrightarrow> find_pre (soup r) = None \<Longrightarrow>
   query_outcome m None reply = Inl (SystemExit 1)"
  by (simp add: query_outcome_def raise_for_status_def parse_pre_block_no_pre)

lemma query_outcome_Inr:
  "query_outcome m err reply = Inr res \<Longrightarrow>
   \<exists>r out. reply = Inr r \<and> parse_pre_block err (soup r) = Inr out \<and>
           res = dict_update out [(''mode'', PStr (mode_str m))]"
  unfolding query_outcome_def
  by (cases reply) (auto split: sum.splits prod.splits)

lemma query_outcome_keys:
  assumes "query_outcome m err reply = Inr res"
  shows "fst ` set res \<subseteq> {''EW_mA'', ''A_LTE'', ''A_NLTE'', ''Delta'', ''OFe_NLTE'', ''mode''}"
    and "map_of res ''mode'' = Some (PStr (mode_str m))"
proof -
  from query_outcome_Inr[OF assms] obtain r :: response and out where
    out: "parse_pre_block err (soup r) = Inr out" "res = dict_update out [(''mode'', PStr (mode_str m))]"
    by blast
  have "dom (map_of res) = insert ''mode'' (dom (map_of out))"
    using out(2) by (simp add: map_of_dict_update)
  then have "fst ` set res = insert ''mode'' (fst ` set out)"
    by (simp add: dom_map_of_conv_image_fst)
  with parse_pre_block_keys[OF out(1)]
  show "fst ` set res \<subseteq> {''EW_mA'', ''A_LTE'', ''A_NLTE'', ''Delta'', ''OFe_NLTE'', ''mode''}"
    by auto
  show "map_of res ''mode'' = Some (PStr (mode_str m))"
    using out(2) by (simp add: map_of_dict_update)
qed

text \<open>
  What one value can do: end the run, with \<open>SystemExit(1)\<close> or with what the print of the
  handler raised; or add rows, one or two, each with the run context.
\<close>

lemma value_rows_Inl:
  "value_rows a wi mw v reply raises = Inl e \<Longrightarrow>
   e = SystemExit 1 \<or>
   (\<not> arg_quiet a \<and> (\<exists>cls msg. raises PrintError = Some (cls, msg) \<and> e = Exc cls msg))"
  unfolding value_rows_def Let_def
  by (auto split: sum.splits if_splits option.splits dest: query_outcome_Inl)

lemma value_rows_no_pre:
  assumes "query_outcome (arg_mode a) (raises StderrNoPre) reply = Inl (SystemExit 1)"
  shows "value_rows a wi mw v reply raises = Inl (SystemExit 1)"
  using assms by (simp add: value_rows_def)

lemma value_rows_success:
  assumes "query_outcome (arg_mode a) (raises StderrNoPre) reply = Inr res"
    and "arg_quiet a \<or> raises PrintDone = None"
  shows "\<exists>row. value_rows a wi mw v reply raises = Inr [row] \<and>
     map_of row = (map_of res)
       (''element'' \<mapsto> PStr (arg_element a), ''wi'' \<mapsto> PInt wi, ''wavelength_A'' \<mapsto> PFloat mw,
        ''Teff'' \<mapsto> PFloat (arg_teff a), ''logg'' \<mapsto> PFloat (arg_logg a),
        ''FeH'' \<mapsto> PFloat (arg_feh a), ''vt'' \<mapsto> PFloat (arg_vt a),
        ''input_value'' \<mapsto> PFloat v)"
  using assms by (auto simp: value_rows_def map_of_dict_update run_context_def Let_def)

lemma value_rows_error:
  assumes "query_outcome (arg_mode a) (raises StderrNoPre) reply = Inl e" and "is_Exception e"
    and "arg_quiet a \<or> raises PrintError = None"
  shows "value_rows a wi mw v reply raises =
     Inr [[(''mode'', PStr (mode_str (arg_mode a))), (''element'', PStr (arg_element a)),
           (''wi'', PInt wi), (''wavelength_A'', PFloat mw), (''Teff'', PFloat (arg_teff a)),
           (''logg'', PFloat (arg_logg a)), (''FeH'', PFloat (arg_feh a)),
           (''vt'', PFloat (arg_vt a)), (''input_value'', PFloat v),
           (''error'', PStr (take 300 (str_exc e)))]]"
  using assms by (auto simp: value_rows_def error_row_def run_context_def Let_def)

lemma error_row_context:
  "map_of (error_row a wi mw v e) ''wi'' = Some (PInt wi) \<and>
   map_of (error_row a wi mw v e) ''wavelength_A'' = Some (PFloat mw) \<and>
   map_of (error_row a wi mw v e) ''input_value'' = Some (PFloat v)"
  by (simp add: error_row_def run_context_def)

lemma success_row_context:
  "map_of (dict_update res (run_context a wi mw v)) ''wi'' = Some (PInt wi) \<and>
   map_of (dict_update res (run_context a wi mw v)) ''wavelength_A'' = Some (PFloat mw) \<and>
   map_of (dict_update res (run_context a wi mw v)) ''input_value'' = Some (PFloat v)"
  by (simp add: map_of_dict_update run_context_def)

lemma value_rows_context:
  assumes "value_rows a wi mw v reply raises = Inr seg"
  shows "seg \<noteq> [] \<and> length seg \<le> 2 \<and>
     (\<forall>row\<in>set seg. map_of row ''wi'' = Some (PInt wi) \<and>
                     map_of row ''wavelength_A'' = Some (PFloat mw) \<and>
                     map_of row ''input_value'' = Some (PFloat v))"
  using assms error_row_context[of a wi mw v] success_row_context[of _ a wi mw v]
  unfolding value_rows_def Let_def
  by (auto split: sum.splits if_splits option.splits)

lemma value_rows_single:
  assumes "value_rows a wi mw v reply raises = Inr seg"
    and "arg_quiet a \<or> raises PrintDone = None"
  shows "\<exists>row. seg = [row]"
  using assms unfolding value_rows_def Let_def
  by (auto split: sum.splits if_splits option.splits)


lemma main_loop_stops:
  "k < length vs \<Longrightarrow>
   value_rows a wi mw (vs ! k) (server w (length (sent w) + k) (query_request a wi (vs ! k)))
     (\<lambda>place. output_raises w place (Suc (length (sent w) + k))) = Inl e0 \<Longrightarrow>
   \<exists>e w'. main_loop w s a wi mw vs rows = (Inl e, w') \<and>
          length (sent w') \<le> length (sent w) + k + 1 \<and>
          (sleep_raises w (arg_sleep a) = None \<and>
           (arg_quiet a \<or> (\<forall>n. output_raises w PrintError n = None)) \<longrightarrow> e = SystemExit 1)"
proof (induction vs arbitrary: w rows k)
  case Nil
  then show ?case by simp
next
  case (Cons v vs)
  let ?w1 = "w\<lparr>sent := sent w @ [query_request a wi v]\<rparr>"
  show ?case
  proof (cases "value_rows a wi mw v (server w (length (sent w)) (query_request a wi v))
                  (\<lambda>place. output_raises w place (Suc (length (sent w))))")
    case (Inl exc)
    from value_rows_Inl[OF Inl]
    have "arg_quiet a \<or> (\<forall>n. output_raises w PrintError n = None) \<longrightarrow> exc = SystemExit 1"
      by auto
    with Inl show ?thesis by (auto simp: try_value_eq)
  next
    case (Inr seg)
    show ?thesis
    proof (cases "sleep_raises w (arg_sleep a)")
      case (Some p)
      with Inr show ?thesis by (cases p) (simp add: try_value_eq)
    next
      case None
      from Inr Cons.prems(2) obtain j where k: "k = Suc j" by (cases k) auto
      with Cons.prems have j: "j < length vs"
        and "value_rows a wi mw (vs ! j)
               (server ?w1 (length (sent ?w1) + j) (query_request a wi (vs ! j)))
               (\<lambda>place. output_raises ?w1 place (Suc (length (sent ?w1) + j))) = Inl e0"
        by simp_all
      from Cons.IH[OF this, of "rows @ seg"] obtain e and w' :: world where
        "main_loop ?w1 s a wi mw vs (rows @ seg) = (Inl e, w')"
        "length (sent w') \<le> length (sent ?w1) + j + 1"
        "sleep_raises ?w1 (arg_sleep a) = None \<and>
           (arg_quiet a \<or> (\<forall>n. output_raises ?w1 PrintError n = None)) \<longrightarrow> e = SystemExit 1"
        by (elim exE conjE)
      with Inr None k show ?thesis by (simp add: try_value_eq)
    qed
  qed
qed

lemma main_cases:
  "fst (main w dh a vals) =
     (if (arg_wavelength a = None) = (arg_wi a = None) then Terminated (SystemExit 2)
      else case read_values vals of
             Inl e \<Rightarrow> Terminated e
           | Inr values \<Rightarrow>
               (case resolve_wi w (make_session dh) a of
                  (Inl e, w1) \<Rightarrow> Terminated e
                | (Inr (wi, mw), w1) \<Rightarrow>
                    (case header_prints w1 a of
                       Some (cls, msg) \<Rightarrow> Terminated (Exc cls msg)
                     | None \<Rightarrow>
                         (case fst (main_loop w1 (make_session dh) a wi mw values []) of
                            Inl e \<Rightarrow> Terminated e
                          | Inr rows \<Rightarrow> Finished (write_csv rows (arg_out a))))))"
  unfolding main_def Let_def
  by (auto split: sum.splits prod.splits option.splits)

lemma example_world_simps:
  "server (example_world f) n req = f n" "sent (example_world f) = []"
  "sleep_raises (example_world f) secs = None" "output_raises (example_world f) place n = None"
  by (simp_all add: example_world_def)

lemma concat_singletons:
  "\<forall>k<length segs. \<exists>row. segs ! k = [row] \<Longrightarrow>
   length (concat segs) = length segs \<and> (\<forall>k<length segs. segs ! k = [concat segs ! k])"
proof (induction segs)
  case Nil
  then show ?case by simp
next
  case (Cons seg segs)
  from Cons.prems have "\<exists>row. (seg # segs) ! 0 = [row]" by blast
  then obtain row where seg: "seg = [row]" by auto
  have "\<forall>k<length segs. \<exists>row. segs ! k = [row]"
  proof (intro allI impI)
    fix k assume "k < length segs"
    then have "Suc k < length (seg # segs)" by simp
    with Cons.prems have "\<exists>row. (seg # segs) ! Suc k = [row]" by blast
    then show "\<exists>row. segs ! k = [row]" by simp
  qed
  from Cons.IH[OF this] have
    ih: "length (concat segs) = length segs" "\<forall>k<length segs. segs ! k = [concat segs ! k]"
    by blast+
  show ?case
  proof (intro conjI allI impI)
    show "length (concat (seg # segs)) = length (seg # segs)" using seg ih(1) by simp
    fix k assume "k < length (seg # segs)"
    then show "(seg # segs) ! k = [concat (seg # segs) ! k]" using seg ih(2) by (cases k) auto
  qed
qed

text \<open>
  In a run that is quiet, or in which the line of a value done can always be printed,
  each value adds one row.
\<close>

lemma main_loop_single:
  assumes run: "main_loop w s a wi mw vs [] = (Inr rs, w')"
    and out: "arg_quiet a \<or> (\<forall>n. output_raises w PrintDone n = None)"
  shows "length rs = length vs \<and>
     (\<forall>k<length vs.
        value_rows a wi mw (vs ! k) (server w (length (sent w) + k) (query_request a wi (vs ! k)))
          (\<lambda>place. output_raises w place (Suc (length (sent w) + k)))
        = Inr [rs ! k])"
proof -
  from main_loop_Inr[OF run] obtain segs where
    len: "length segs = length vs" and rs: "rs = concat segs" and
    vr: "\<forall>k<length vs.
        value_rows a wi mw (vs ! k) (server w (length (sent w) + k) (query_request a wi (vs ! k)))
          (\<lambda>place. output_raises w place (Suc (length (sent w) + k)))
        = Inr (segs ! k)"
    by auto
  have single: "\<forall>k<length segs. \<exists>row. segs ! k = [row]"
  proof (intro allI impI)
    fix k assume "k < length segs"
    with len vr have v: "value_rows a wi mw (vs ! k)
          (server w (length (sent w) + k) (query_request a wi (vs ! k)))
          (\<lambda>place. output_raises w place (Suc (length (sent w) + k)))
        = Inr (segs ! k)" by simp
    from out have "arg_quiet a \<or>
        (\<lambda>place. output_raises w place (Suc (length (sent w) + k))) PrintDone = None"
      by auto
    from value_rows_single[OF v this] show "\<exists>row. segs ! k = [row]" .
  qed
  from concat_singletons[OF single] have
    c: "length (concat segs) = length segs" "\<forall>k<length segs. segs ! k = [concat segs ! k]"
    by blast+
  have "\<forall>k<length vs.
        value_rows a wi mw (vs ! k) (server w (length (sent w) + k) (query_request a wi (vs ! k)))
          (\<lambda>place. output_raises w place (Suc (length (sent w) + k)))
        = Inr [rs ! k]"
  proof (intro allI impI)
    fix k assume k: "k < length vs"
    with len c(2) rs have "segs ! k = [rs ! k]" by simp
    with vr k show "value_rows a wi mw (vs ! k)
          (server w (length (sent w) + k) (query_request a wi (vs ! k)))
          (\<lambda>place. output_raises w place (Suc (length (sent w) + k)))
        = Inr [rs ! k]" by simp
  qed
  moreover have "length rs = length vs" using c(1) len rs by simp
  ultimately show ?thesis by (intro conjI)
qed

text \<open>
  Let no query end in \<open>SystemExit\<close>, and let the run be quiet or its lines for a value
  (done or error) be printed without an exception.  Then the loop runs to its end as soon
  as sleeping never raises, and whenever it runs to its end it hands over one row per
  value, in the order of the values.  The row of a value whose query raised is the mode,
  the run context and the message cut to 300 characters under \<open>error\<close>; the row of a
  value whose query returned holds what the query returned (the parsed fields and the
  mode) and the run context, and has no key \<open>error\<close>.
\<close>

lemma main_loop_one_row_per_value:
  assumes "\<forall>k<length values. \<forall>e.
       query_outcome (arg_mode a) (output_raises w StderrNoPre (Suc (length (sent w) + k)))
         (server w (length (sent w) + k) (query_request a wi (values ! k))) = Inl e
       \<longrightarrow> is_Exception e"
    and "arg_quiet a \<or>
         (\<forall>n. output_raises w PrintDone n = None \<and> output_raises w PrintError n = None)"
  shows "(sleep_raises w (arg_sleep a) = None \<longrightarrow>
            (\<exists>rows w'. main_loop w s a wi mw values [] = (Inr rows, w'))) \<and>
     (\<forall>rows w'. main_loop w s a wi mw values [] = (Inr rows, w') \<longrightarrow>
        length rows = length values \<and>
        (\<forall>k<length values.
           case query_outcome (arg_mode a) (output_raises w StderrNoPre (Suc (length (sent w) + k)))
                  (server w (length (sent w) + k) (query_request a wi (values ! k))) of
             Inl e \<Rightarrow>
               rows ! k =
                 [(''mode'', PStr (mode_str (arg_mode a))), (''element'', PStr (arg_element a)),
                  (''wi'', PInt wi), (''wavelength_A'', PFloat mw), (''Teff'', PFloat (arg_teff a)),
                  (''logg'', PFloat (arg_logg a)), (''FeH'', PFloat (arg_feh a)),
                  (''vt'', PFloat (arg_vt a)), (''input_value'', PFloat (values ! k)),
                  (''error'', PStr (take 300 (str_exc e)))]
           | Inr res \<Rightarrow>
               map_of (rows ! k) =
                 (map_of res)
                   (''element'' \<mapsto> PStr (arg_element a), ''wi'' \<mapsto> PInt wi,
                    ''wavelength_A'' \<mapsto> PFloat mw, ''Teff'' \<mapsto> PFloat (arg_teff a),
                    ''logg'' \<mapsto> PFloat (arg_logg a), ''FeH'' \<mapsto> PFloat (arg_feh a),
                    ''vt'' \<mapsto> PFloat (arg_vt a), ''input_value'' \<mapsto> PFloat (values ! k)) \<and>
               map_of res ''mode'' = Some (PStr (mode_str (arg_mode a))) \<and>
               fst ` set res \<subseteq> {''EW_mA'', ''A_LTE'', ''A_NLTE'', ''Delta'', ''OFe_NLTE'', ''mode''} \<and>
               map_of (rows ! k) ''error'' = None))"
proof (intro conjI impI allI)
  let ?reply = "\<lambda>k. server w (length (sent w) + k) (query_request a wi (values ! k))"
  let ?raises = "\<lambda>k place. output_raises w place (Suc (length (sent w) + k))"
  assume sl: "sleep_raises w (arg_sleep a) = None"
  have ex: "\<forall>k<length values. \<exists>seg. value_rows a wi mw (values ! k) (?reply k) (?raises k) = Inr seg"
  proof (intro allI impI)
    fix k assume k: "k < length values"
    from assms(2) have d: "arg_quiet a \<or> ?raises k PrintDone = None"
      and e: "arg_quiet a \<or> ?raises k PrintError = None" by auto
    show "\<exists>seg. value_rows a wi mw (values ! k) (?reply k) (?raises k) = Inr seg"
    proof (cases "query_outcome (arg_mode a) (?raises k StderrNoPre) (?reply k)")
      case (Inl exc)
      with assms(1) k have "is_Exception exc" by blast
      from value_rows_error[OF Inl this e] show ?thesis by blast
    next
      case (Inr res)
      from value_rows_success[OF Inr d] show ?thesis by blast
    qed
  qed
  from main_loop_completes[OF ex sl]
  show "\<exists>rows w'. main_loop w s a wi mw values [] = (Inr rows, w')" .
next
  fix rows and w' :: world
  assume run: "main_loop w s a wi mw values [] = (Inr rows, w')"
  from assms(2) have "arg_quiet a \<or> (\<forall>n. output_raises w PrintDone n = None)" by auto
  from main_loop_single[OF run this] show "length rows = length values" by simp
next
  let ?reply = "\<lambda>k. server w (length (sent w) + k) (query_request a wi (values ! k))"
  let ?raises = "\<lambda>k place. output_raises w place (Suc (length (sent w) + k))"
  fix rows and w' :: world and k
  assume run: "main_loop w s a wi mw values [] = (Inr rows, w')" and k: "k < length values"
  from assms(2) have o: "arg_quiet a \<or> (\<forall>n. output_raises w PrintDone n = None)" by auto
  from assms(2) have d: "arg_quiet a \<or> ?raises k PrintDone = None"
    and e: "arg_quiet a \<or> ?raises k PrintError = None" by auto
  from main_loop_single[OF run o] k
  have rk: "value_rows a wi mw (values ! k) (?reply k) (?raises k) = Inr [rows ! k]" by simp
  show "case query_outcome (arg_mode a) (output_raises w StderrNoPre (Suc (length (sent w) + k)))
               (?reply k) of
          Inl e \<Rightarrow>
            rows ! k =
              [(''mode'', PStr (mode_str (arg_mode a))), (''element'', PStr (arg_element a)),
               (''wi'', PInt wi), (''wavelength_A'', PFloat mw), (''Teff'', PFloat (arg_teff a)),
               (''logg'', PFloat (arg_logg a)), (''FeH'', PFloat (arg_feh a)),
               (''vt'', PFloat (arg_vt a)), (''input_value'', PFloat (values ! k)),
               (''error'', PStr (take 300 (str_exc e)))]
        | Inr res \<Rightarrow>
            map_of (rows ! k) =
              (map_of res)
                (''element'' \<mapsto> PStr (arg_element a), ''wi'' \<mapsto> PInt wi,
                 ''wavelength_A'' \<mapsto> PFloat mw, ''Teff'' \<mapsto> PFloat (arg_teff a),
                 ''logg'' \<mapsto> PFloat (arg_logg a), ''FeH'' \<mapsto> PFloat (arg_feh a),
                 ''vt'' \<mapsto> PFloat (arg_vt a), ''input_value'' \<mapsto> PFloat (values ! k)) \<and>
            map_of res ''mode'' = Some (PStr (mode_str (arg_mode a))) \<and>
            fst ` set res \<subseteq> {''EW_mA'', ''A_LTE'', ''A_NLTE'', ''Delta'', ''OFe_NLTE'', ''mode''} \<and>
            map_of (rows ! k) ''error'' = None"
  proof (cases "query_outcome (arg_mode a) (?raises k StderrNoPre) (?reply k)")
    case (Inl exc)
    with assms(1) k have "is_Exception exc" by blast
    from value_rows_error[OF Inl this e, of wi mw "values ! k"] rk Inl show ?thesis by simp
  next
    case (Inr res)
    from value_rows_success[OF Inr d, of wi mw "values ! k"] rk
    have m: "map_of (rows ! k) =
            (map_of res)
              (''element'' \<mapsto> PStr (arg_element a), ''wi'' \<mapsto> PInt wi,
               ''wavelength_A'' \<mapsto> PFloat mw, ''Teff'' \<mapsto> PFloat (arg_teff a),
               ''logg'' \<mapsto> PFloat (arg_logg a), ''FeH'' \<mapsto> PFloat (arg_feh a),
               ''vt'' \<mapsto> PFloat (arg_vt a), ''input_value'' \<mapsto> PFloat (values ! k))"
      by auto
    have keys: "fst ` set res \<subseteq> {''EW_mA'', ''A_LTE'', ''A_NLTE'', ''Delta'', ''OFe_NLTE'', ''mode''}"
      by (rule query_outcome_keys(1)[OF Inr])
    have "''error'' \<notin> fst ` set res" using keys by auto
    then have "map_of res ''error'' = None" by (simp add: map_of_eq_None_iff)
    then have "map_of (rows ! k) ''error'' = None" using m by simp
    with m keys query_outcome_keys(2)[OF Inr] Inr show ?thesis by simp
  qed
qed

text \<open>
  C3 as stated fails.  The queries call \<open>raise_for_status\<close> before \<open>parse_pre_block\<close>, so a
  reply with an error status and no \<open>pre\<close> element raises \<open>HTTPError\<close>, which the handler
  of the loop records as an error row.  Here the dropdown is fetched, both queries get a
  page with status 404 and no \<open>pre\<close> element, and the run ends with a CSV of two rows.
\<close>

theorem no_pre_error_status_counterexample:
  "find_pre (soup page_404) = None \<and>
   fst (main (example_world (\<lambda>n. if n = 0 then Inr (example_page None) else Inr page_404)) []
          example_args [Finite 1, Finite 2]) =
     Finished
       (Some \<lparr>csv_path = None,
              fieldnames = [''mode'', ''element'', ''wi'', ''wavelength_A'', ''Teff'', ''logg'',
                            ''FeH'', ''vt'', ''input_value'', ''error''],
              records =
                [[Some (PStr ''lte''), Some (PStr ''O''), Some (PInt 7), Some (PFloat NaN),
                  Some (PFloat (Finite 5777)), Some (PFloat (Finite 4)), Some (PFloat (Finite 0)),
                  Some (PFloat (Finite 1)), Some (PFloat (Finite 1)),
                  Some (PStr ''404 Client Error: Not Found'')],
                 [Some (PStr ''lte''), Some (PStr ''O''), Some (PInt 7), Some (PFloat NaN),
                  Some (PFloat (Finite 5777)), Some (PFloat (Finite 4)), Some (PFloat (Finite 0)),
                  Some (PFloat (Finite 1)), Some (PFloat (Finite 2)),
                  Some (PStr ''404 Client Error: Not Found'')]]\<rparr>)"
  by code_simp

text \<open>
  C3, amended.  Let the reply to the \<open>k\<close>-th value pass \<open>raise_for_status\<close> and hold no
  \<open>pre\<close> element, and let the message for stderr be written without an exception.  Then
  \<open>parse_pre_block\<close> raises \<open>SystemExit(1)\<close> (had the write raised, it would have raised
  that exception instead).  The loop ends in an exception after at most \<open>k + 1\<close> requests;
  it is \<open>SystemExit(1)\<close> unless sleeping, or the print of the handler, raised at an earlier
  value.  A run of \<open>main\<close> that reaches this loop ends \<open>Terminated\<close>: \<open>write_csv\<close> is not
  called.
\<close>

theorem no_pre_terminates_batch:
  assumes "k < length values"
    and "server w (length (sent w) + k) (query_request a wi (values ! k)) = Inr r"
    and "\<not> (400 \<le> status_code r \<and> status_code r < 600)"
    and "find_pre (soup r) = None"
    and "output_raises w StderrNoPre (length (sent w) + k + 1) = None"
  shows "parse_pre_block (output_raises w StderrNoPre (length (sent w) + k + 1)) (soup r)
           = Inl (SystemExit 1) \<and>
     (\<forall>cls msg. parse_pre_block (Some (cls, msg)) (soup r) = Inl (Exc cls msg)) \<and>
     (\<exists>e w'. main_loop w s a wi mw values rows = (Inl e, w') \<and>
            length (sent w') \<le> length (sent w) + k + 1 \<and>
            (sleep_raises w (arg_sleep a) = None \<and>
             (arg_quiet a \<or> (\<forall>n. output_raises w PrintError n = None)) \<longrightarrow> e = SystemExit 1)) \<and>
     (\<forall>w0 dh. resolve_wi w0 (make_session dh) a = (Inr (wi, mw), w) \<longrightarrow>
        (\<exists>e. fst (main w0 dh a values) = Terminated e))"
proof (intro conjI allI impI)
  show "parse_pre_block (output_raises w StderrNoPre (length (sent w) + k + 1)) (soup r)
          = Inl (SystemExit 1)"
    using assms(4,5) by (simp add: parse_pre_block_no_pre)
next
  fix cls msg
  show "parse_pre_block (Some (cls, msg)) (soup r) = Inl (Exc cls msg)"
    using assms(4) by (simp add: parse_pre_block_def)
next
  have "query_outcome (arg_mode a) None
             (server w (length (sent w) + k) (query_request a wi (values ! k))) = Inl (SystemExit 1)"
    using assms(2-4) by (rule query_outcome_no_pre)
  with assms(5) have "query_outcome (arg_mode a)
             ((\<lambda>place. output_raises w place (Suc (length (sent w) + k))) StderrNoPre)
             (server w (length (sent w) + k) (query_request a wi (values ! k))) = Inl (SystemExit 1)"
    by simp
  then have rr: "value_rows a wi mw (values ! k)
             (server w (length (sent w) + k) (query_request a wi (values ! k)))
             (\<lambda>place. output_raises w place (Suc (length (sent w) + k))) = Inl (SystemExit 1)"
    by (rule value_rows_no_pre)
  from main_loop_stops[OF assms(1) rr]
  show "\<exists>e w'. main_loop w s a wi mw values rows = (Inl e, w') \<and>
            length (sent w') \<le> length (sent w) + k + 1 \<and>
            (sleep_raises w (arg_sleep a) = None \<and>
             (arg_quiet a \<or> (\<forall>n. output_raises w PrintError n = None)) \<longrightarrow> e = SystemExit 1)" .
  fix w0 dh
  assume res: "resolve_wi w0 (make_session dh) a = (Inr (wi, mw), w)"
  from main_loop_stops[OF assms(1) rr, of "make_session dh" "[]"] obtain e and w' :: world where
    "main_loop w (make_session dh) a wi mw values [] = (Inl e, w')" by blast
  with res show "\<exists>e. fst (main w0 dh a values) = Terminated e"
    by (auto simp: main_cases read_values_def split: option.splits)
qed

lemma example_run_no_pre:
  "fst (main_loop (example_world example_replies) (make_session []) example_args 7 NaN
          [Finite 1, Finite 2, Finite 3, Finite 4] []) = Inl (SystemExit 1)"
  by code_simp

theorem no_pre_terminates_batch_witness:
  "2 < length [Finite 1, Finite 2, Finite 3, Finite 4 :: pyfloat] \<and>
   server (example_world example_replies) (length (sent (example_world example_replies)) + 2)
     (query_request example_args 7 ([Finite 1, Finite 2, Finite 3, Finite 4] ! 2))
     = Inr (example_page None) \<and>
   \<not> (400 \<le> status_code (example_page None) \<and> status_code (example_page None) < 600) \<and>
   find_pre (soup (example_page None)) = None \<and>
   output_raises (example_world example_replies) StderrNoPre
     (length (sent (example_world example_replies)) + 2 + 1) = None \<and>
   parse_pre_block None (soup (example_page None)) = Inl (SystemExit 1) \<and>
   fst (main_loop (example_world example_replies) (make_session []) example_args 7 NaN
          [Finite 1, Finite 2, Finite 3, Finite 4] []) = Inl (SystemExit 1)"
proof -
  have h1: "2 < length [Finite 1, Finite 2, Finite 3, Finite 4 :: pyfloat]" by simp
  have h2: "server (example_world example_replies) (length (sent (example_world example_replies)) + 2)
     (query_request example_args 7 ([Finite 1, Finite 2, Finite 3, Finite 4] ! 2))
     = Inr (example_page None)"
    by (simp add: example_world_simps example_replies_def)
  have h3: "\<not> (400 \<le> status_code (example_page None) \<and> status_code (example_page None) < 600)"
    by (simp add: example_page_def)
  have h4: "find_pre (soup (example_page None)) = None"
    by (simp add: example_page_def)
  have h5: "output_raises (example_world example_replies) StderrNoPre
     (length (sent (example_world example_replies)) + 2 + 1) = None"
    by (simp add: example_world_simps)
  from no_pre_terminates_batch[OF h1 h2 h3 h4 h5, THEN conjunct1]
  have "parse_pre_block None (soup (example_page None)) = Inl (SystemExit 1)"
    by (simp add: example_world_simps)
  with h1 h2 h3 h4 h5 example_run_no_pre show ?thesis by blast
qed

text \<open>
  C4.  The claim fails on a run that prints its progress.  The row of a value whose query
  returned is appended before the line of that value is printed, and the print stands
  inside the \<open>try\<close> block: when it raises, the handler appends an error row for the same
  value.  Here the dropdown and the one query are answered, the query returns the three
  parsed fields, printing the line of the value raises \<open>BlockingIOError\<close>, and
  \<open>write_csv\<close> receives two rows for the one value: its success row and an error row.
\<close>

theorem done_print_raises_two_rows:
  "query_outcome (arg_mode example_args) None (Inr (example_page (Some ''8.5 8.25 -0.25''))) =
     Inr [(''A_LTE'', PFloat (Finite (17 / 2))), (''A_NLTE'', PFloat (Finite (33 / 4))),
          (''Delta'', PFloat (Finite (- 1 / 4))), (''mode'', PStr ''lte'')] \<and>
   fst (main (blocked_world (\<lambda>n. Inr (example_page (Some ''8.5 8.25 -0.25'')))) []
          example_args [Finite 1]) =
     Finished
       (Some \<lparr>csv_path = None,
              fieldnames = [''mode'', ''element'', ''wi'', ''wavelength_A'', ''Teff'', ''logg'',
                            ''FeH'', ''vt'', ''input_value'', ''A_LTE'', ''A_NLTE'', ''Delta'',
                            ''error''],
              records =
                [[Some (PStr ''lte''), Some (PStr ''O''), Some (PInt 7), Some (PFloat NaN),
                  Some (PFloat (Finite 5777)), Some (PFloat (Finite 4)), Some (PFloat (Finite 0)),
                  Some (PFloat (Finite 1)), Some (PFloat (Finite 1)),
                  Some (PFloat (Finite (17 / 2))), Some (PFloat (Finite (33 / 4))),
                  Some (PFloat (Finite (- 1 / 4))), None],
                 [Some (PStr ''lte''), Some (PStr ''O''), Some (PInt 7), Some (PFloat NaN),
                  Some (PFloat (Finite 5777)), Some (PFloat (Finite 4)), Some (PFloat (Finite 0)),
                  Some (PFloat (Finite 1)), Some (PFloat (Finite 1)), None, None, None,
                  Some (PStr ''[Errno 11] write could not complete without blocking'')]]\<rparr>)"
  by code_simp

text \<open>
  C7.  \<open>query_A_from_e\<close> sends one GET to \<open>https://www.inspect-stars.com/A_from_e\<close> with
  the value under \<open>e\<close>, \<open>query_nlte_from_lte\<close> one GET to
  \<open>https://www.inspect-stars.com/nonlte_from_lte\<close> with the value under \<open>A_lte\<close>; both carry
  \<open>element_name\<close>, the stellar parameters under \<open>t\<close>, \<open>g\<close>, \<open>f\<close>, \<open>x\<close>, and \<open>wi\<close>.  The
  requests a run of the loop adds to the log are exactly these, one for each value it
  reaches, in order, at the endpoint of the mode.
\<close>

theorem queries_endpoints:
  "sent (snd (query_A_from_e w element ew_mA teff logg feh vt wi s)) =
     sent w @ [\<lparr>req_method = ''GET'', req_url = ''https://www.inspect-stars.com/A_from_e'',
                req_params = [(''element_name'', Lit element), (''e'', FormatG ew_mA),
                              (''t'', FormatG teff), (''g'', FormatG logg), (''f'', FormatG feh),
                              (''x'', FormatG vt), (''wi'', StrOf wi)],
                req_timeout = 30\<rparr>] \<and>
   sent (snd (query_nlte_from_lte w element A_lte teff logg feh vt wi s)) =
     sent w @ [\<lparr>req_method = ''GET'', req_url = ''https://www.inspect-stars.com/nonlte_from_lte'',
                req_params = [(''element_name'', Lit element), (''A_lte'', FormatG A_lte),
                              (''t'', FormatG teff), (''g'', FormatG logg), (''f'', FormatG feh),
                              (''x'', FormatG vt), (''wi'', StrOf wi)],
                req_timeout = 30\<rparr>] \<and>
   (\<forall>res w'. main_loop w s a wi mw values rows = (res, w') \<longrightarrow>
      (\<exists>n\<le>length values.
         sent w' = sent w @
           map (\<lambda>v. \<lparr>req_method = ''GET'',
                      req_url = (case arg_mode a of
                                   EW \<Rightarrow> ''https://www.inspect-stars.com/A_from_e''
                                 | LTE \<Rightarrow> ''https://www.inspect-stars.com/nonlte_from_lte''),
                      req_params = [(''element_name'', Lit (arg_element a)),
                                    (case arg_mode a of EW \<Rightarrow> ''e'' | LTE \<Rightarrow> ''A_lte'', FormatG v),
                                    (''t'', FormatG (arg_teff a)), (''g'', FormatG (arg_logg a)),
                                    (''f'', FormatG (arg_feh a)), (''x'', FormatG (arg_vt a)),
                                    (''wi'', StrOf wi)],
                      req_timeout = 30\<rparr>)
               (take n values)))"
proof (intro conjI allI impI)
  show "sent (snd (query_A_from_e w element ew_mA teff logg feh vt wi s)) =
     sent w @ [\<lparr>req_method = ''GET'', req_url = ''https://www.inspect-stars.com/A_from_e'',
                req_params = [(''element_name'', Lit element), (''e'', FormatG ew_mA),
                              (''t'', FormatG teff), (''g'', FormatG logg), (''f'', FormatG feh),
                              (''x'', FormatG vt), (''wi'', StrOf wi)],
                req_timeout = 30\<rparr>]"
    by (simp add: query_A_from_e_def session_get_def Let_def ENDPOINT_EW_def BASE_def
             split: sum.splits prod.splits)
  show "sent (snd (query_nlte_from_lte w element A_lte teff logg feh vt wi s)) =
     sent w @ [\<lparr>req_method = ''GET'', req_url = ''https://www.inspect-stars.com/nonlte_from_lte'',
                req_params = [(''element_name'', Lit element), (''A_lte'', FormatG A_lte),
                              (''t'', FormatG teff), (''g'', FormatG logg), (''f'', FormatG feh),
                              (''x'', FormatG vt), (''wi'', StrOf wi)],
                req_timeout = 30\<rparr>]"
    by (simp add: query_nlte_from_lte_def session_get_def Let_def ENDPOINT_LTE_def BASE_def
             split: sum.splits prod.splits)
next
  fix res w'
  assume "main_loop w s a wi mw values rows = (res, w')"
  from main_loop_sent[OF this] obtain n where
    n: "n \<le> length values" "w' = w\<lparr>sent := sent w @ map (query_request a wi) (take n values)\<rparr>"
    by blast
  have q: "query_request a wi =
     (\<lambda>v. \<lparr>req_method = ''GET'',
                      req_url = (case arg_mode a of
                                   EW \<Rightarrow> ''https://www.inspect-stars.com/A_from_e''
                                 | LTE \<Rightarrow> ''https://www.inspect-stars.com/nonlte_from_lte''),
                      req_params = [(''element_name'', Lit (arg_element a)),
                                    (case arg_mode a of EW \<Rightarrow> ''e'' | LTE \<Rightarrow> ''A_lte'', FormatG v),
                                    (''t'', FormatG (arg_teff a)), (''g'', FormatG (arg_logg a)),
                                    (''f'', FormatG (arg_feh a)), (''x'', FormatG (arg_vt a)),
                                    (''wi'', StrOf wi)],
                      req_timeout = 30\<rparr>)"
    by (rule ext) (simp add: query_request_def ENDPOINT_EW_def ENDPOINT_LTE_def BASE_def split: mode.splits)
  from n show "\<exists>n\<le>length values.
         sent w' = sent w @
           map (\<lambda>v. \<lparr>req_method = ''GET'',
                      req_url = (case arg_mode a of
                                   EW \<Rightarrow> ''https://www.inspect-stars.com/A_from_e''
                                 | LTE \<Rightarrow> ''https://www.inspect-stars.com/nonlte_from_lte''),
                      req_params = [(''element_name'', Lit (arg_element a)),
                                    (case arg_mode a of EW \<Rightarrow> ''e'' | LTE \<Rightarrow> ''A_lte'', FormatG v),
                                    (''t'', FormatG (arg_teff a)), (''g'', FormatG (arg_logg a)),
                                    (''f'', FormatG (arg_feh a)), (''x'', FormatG (arg_vt a)),
                                    (''wi'', StrOf wi)],
                      req_timeout = 30\<rparr>)
               (take n values)"
    unfolding q[symmetric] by (intro exI[of _ n]) simp
qed

lemma example_sent:
  "sent (snd (main_loop (example_world example_replies) (make_session []) example_args 7 NaN
       [Finite 1, Finite 2] [])) =
     [\<lparr>req_method = ''GET'', req_url = ''https://www.inspect-stars.com/nonlte_from_lte'',
       req_params = [(''element_name'', Lit ''O''), (''A_lte'', FormatG (Finite 1)),
                     (''t'', FormatG (Finite 5777)), (''g'', FormatG (Finite 4)),
                     (''f'', FormatG (Finite 0)), (''x'', FormatG (Finite 1)), (''wi'', StrOf 7)],
       req_timeout = 30\<rparr>,
      \<lparr>req_method = ''GET'', req_url = ''https://www.inspect-stars.com/nonlte_from_lte'',
       req_params = [(''element_name'', Lit ''O''), (''A_lte'', FormatG (Finite 2)),
                     (''t'', FormatG (Finite 5777)), (''g'', FormatG (Finite 4)),
                     (''f'', FormatG (Finite 0)), (''x'', FormatG (Finite 1)), (''wi'', StrOf 7)],
       req_timeout = 30\<rparr>]"
  by code_simp

theorem queries_endpoints_witness:
  "main_loop (example_world example_replies) (make_session []) example_args 7 NaN
       [Finite 1, Finite 2] [] =
     (fst (main_loop (example_world example_replies) (make_session []) example_args 7 NaN
             [Finite 1, Finite 2] []),
      snd (main_loop (example_world example_replies) (make_session []) example_args 7 NaN
             [Finite 1, Finite 2] [])) \<and>
   sent (snd (main_loop (example_world example_replies) (make_session []) example_args 7 NaN
       [Finite 1, Finite 2] [])) =
     [\<lparr>req_method = ''GET'', req_url = ''https://www.inspect-stars.com/nonlte_from_lte'',
       req_params = [(''element_name'', Lit ''O''), (''A_lte'', FormatG (Finite 1)),
                     (''t'', FormatG (Finite 5777)), (''g'', FormatG (Finite 4)),
                     (''f'', FormatG (Finite 0)), (''x'', FormatG (Finite 1)), (''wi'', StrOf 7)],
       req_timeout = 30\<rparr>,
      \<lparr>req_method = ''GET'', req_url = ''https://www.inspect-stars.com/nonlte_from_lte'',
       req_params = [(''element_name'', Lit ''O''), (''A_lte'', FormatG (Finite 2)),
                     (''t'', FormatG (Finite 5777)), (''g'', FormatG (Finite 4)),
                     (''f'', FormatG (Finite 0)), (''x'', FormatG (Finite 1)), (''wi'', StrOf 7)],
       req_timeout = 30\<rparr>]"
proof -
  have run: "main_loop (example_world example_replies) (make_session []) example_args 7 NaN
       [Finite 1, Finite 2] [] =
     (fst (main_loop (example_world example_replies) (make_session []) example_args 7 NaN
             [Finite 1, Finite 2] []),
      snd (main_loop (example_world example_replies) (make_session []) example_args 7 NaN
             [Finite 1, Finite 2] []))"
    by simp
  from queries_endpoints[THEN conjunct2, THEN conjunct2, rule_format, OF run]
  have "\<exists>n\<le>length [Finite 1, Finite 2 :: pyfloat].
     length (sent (snd (main_loop (example_world example_replies) (make_session []) example_args 7 NaN
       [Finite 1, Finite 2] []))) = n"
    by (auto simp: example_world_simps)
  with run example_sent show ?thesis by blast
qed





lemma fetch_available_lines_world:
  "fetch_available_lines w s element = (res, w') \<Longrightarrow>
   server w' = server w \<and> sleep_raises w' = sleep_raises w \<and>
   output_raises w' = output_raises w \<and> length (sent w') = Suc (length (sent w))"
  by (auto simp: fetch_available_lines_def session_get_def Let_def
           split: prod.splits sum.splits option.splits if_splits)

lemma header_prints_None:
  "arg_quiet a \<or> (\<forall>place n. output_raises w place n = None) \<Longrightarrow> header_prints w a = None"
  by (auto simp: header_prints_def write_raises_def)

text \<open>
  C9 as stated fails.  With \<open>--wi 7\<close> and a dropdown that holds the placeholder only, the
  index does not occur as an option value, and the program fails: \<open>fetch_available_lines\<close>
  raises \<open>RuntimeError\<close> on a dropdown without lines, before the index is looked at.
\<close>

theorem unknown_wi_no_lines_counterexample:
  "arg_wavelength example_args = None \<and> arg_wi example_args = Some 7 \<and>
   find_select_wi (soup page_no_lines) = Some [\<lparr>opt_value = Some [], opt_text = ''Choose a line''\<rparr>] \<and>
   fst (main (example_world (\<lambda>n. Inr page_no_lines)) [] example_args [Finite 1, Finite 2]) =
     Terminated (Exc ''RuntimeError'' ''No lines found for element O.'')"
  by code_simp

text \<open>
  C9, amended.  With \<open>--wi\<close> and a dropdown that was fetched with at least one line but
  does not list the index, the resolution does not fail: it yields the index as given and
  NaN.  The loop then sends its requests with that index: the first one whenever there is
  a value, one per value in order when it runs to its end.  When it runs to its end, every
  value has a row, and every row records the index and NaN as \<open>wavelength_A\<close>.  The
  program ends as the header prints and the loop do; it finishes, with one such row per
  value in order handed to \<open>write_csv\<close>, when every reply that passes \<open>raise_for_status\<close>
  holds a \<open>pre\<close> element, sleeping never raises, and the run is quiet or no write raises.
\<close>

theorem unknown_wi_not_validated:
  assumes "arg_wavelength a = None"
    and "arg_wi a = Some i"
    and "fetch_available_lines w s (arg_element a) = (Inr lines, w1)"
    and "i \<notin> fst ` set lines"
  shows "resolve_wi w s a = (Inr (i, NaN), w1) \<and>
     (\<forall>res w'. main_loop w1 s a i NaN values [] = (res, w') \<longrightarrow>
        (\<exists>n\<le>length values.
           (values \<noteq> [] \<longrightarrow> 1 \<le> n) \<and> (\<forall>rows. res = Inr rows \<longrightarrow> n = length values) \<and>
           sent w' = sent w1 @
             map (\<lambda>v. \<lparr>req_method = ''GET'',
                        req_url = (case arg_mode a of
                                     EW \<Rightarrow> ''https://www.inspect-stars.com/A_from_e''
                                   | LTE \<Rightarrow> ''https://www.inspect-stars.com/nonlte_from_lte''),
                        req_params = [(''element_name'', Lit (arg_element a)),
                                      (case arg_mode a of EW \<Rightarrow> ''e'' | LTE \<Rightarrow> ''A_lte'', FormatG v),
                                      (''t'', FormatG (arg_teff a)), (''g'', FormatG (arg_logg a)),
                                      (''f'', FormatG (arg_feh a)), (''x'', FormatG (arg_vt a)),
                                      (''wi'', StrOf i)],
                        req_timeout = 30\<rparr>)
                 (take n values)) \<and>
        (\<forall>rows. res = Inr rows \<longrightarrow>
           length values \<le> length rows \<and>
           (\<forall>row\<in>set rows. map_of row ''wi'' = Some (PInt i) \<and>
                            map_of row ''wavelength_A'' = Some (PFloat NaN)) \<and>
           (\<forall>k<length values. \<exists>row\<in>set rows.
              map_of row ''input_value'' = Some (PFloat (values ! k))))) \<and>
     (\<forall>dh. s = make_session dh \<and> values \<noteq> [] \<longrightarrow>
        fst (main w dh a values) =
          (case header_prints w1 a of
             Some (cls, msg) \<Rightarrow> Terminated (Exc cls msg)
           | None \<Rightarrow>
               (case fst (main_loop w1 s a i NaN values []) of
                  Inl e \<Rightarrow> Terminated e
                | Inr rows \<Rightarrow> Finished (write_csv rows (arg_out a))))) \<and>
     (\<forall>dh. s = make_session dh \<and> values \<noteq> [] \<and>
           (\<forall>k<length values. \<forall>r.
              server w1 (length (sent w1) + k) (query_request a i (values ! k)) = Inr r \<longrightarrow>
              (400 \<le> status_code r \<and> status_code r < 600) \<or> find_pre (soup r) \<noteq> None) \<and>
           sleep_raises w1 (arg_sleep a) = None \<and>
           (arg_quiet a \<or> (\<forall>place n. output_raises w1 place n = None)) \<longrightarrow>
        (\<exists>rows. fst (main w dh a values) = Finished (write_csv rows (arg_out a)) \<and>
                length rows = length values \<and>
                (\<forall>k<length values.
                   map_of (rows ! k) ''wi'' = Some (PInt i) \<and>
                   map_of (rows ! k) ''wavelength_A'' = Some (PFloat NaN) \<and>
                   map_of (rows ! k) ''input_value'' = Some (PFloat (values ! k)))))"
proof -
  have "fst ` set (rev (map (\<lambda>t. (fst t, fst (snd t))) lines)) = fst ` set lines"
    by (simp add: image_image)
  with assms(4) have "map_of (rev (map (\<lambda>t. (fst t, fst (snd t))) lines)) i = None"
    by (simp only: map_of_eq_None_iff not_False_eq_True)
  with assms(1-3) have res: "resolve_wi w s a = (Inr (i, NaN), w1)"
    by (simp add: resolve_wi_def)
  have q: "query_request a i =
     (\<lambda>v. \<lparr>req_method = ''GET'',
                        req_url = (case arg_mode a of
                                     EW \<Rightarrow> ''https://www.inspect-stars.com/A_from_e''
                                   | LTE \<Rightarrow> ''https://www.inspect-stars.com/nonlte_from_lte''),
                        req_params = [(''element_name'', Lit (arg_element a)),
                                      (case arg_mode a of EW \<Rightarrow> ''e'' | LTE \<Rightarrow> ''A_lte'', FormatG v),
                                      (''t'', FormatG (arg_teff a)), (''g'', FormatG (arg_logg a)),
                                      (''f'', FormatG (arg_feh a)), (''x'', FormatG (arg_vt a)),
                                      (''wi'', StrOf i)],
                        req_timeout = 30\<rparr>)"
    by (rule ext) (simp add: query_request_def ENDPOINT_EW_def ENDPOINT_LTE_def BASE_def split: mode.splits)
  have loop: "\<forall>res w'. main_loop w1 s a i NaN values [] = (res, w') \<longrightarrow>
        (\<exists>n\<le>length values.
           (values \<noteq> [] \<longrightarrow> 1 \<le> n) \<and> (\<forall>rows. res = Inr rows \<longrightarrow> n = length values) \<and>
           sent w' = sent w1 @ map (query_request a i) (take n values)) \<and>
        (\<forall>rows. res = Inr rows \<longrightarrow>
           length values \<le> length rows \<and>
           (\<forall>row\<in>set rows. map_of row ''wi'' = Some (PInt i) \<and>
                            map_of row ''wavelength_A'' = Some (PFloat NaN)) \<and>
           (\<forall>k<length values. \<exists>row\<in>set rows.
              map_of row ''input_value'' = Some (PFloat (values ! k))))"
  proof (intro allI impI)
    fix res and w' :: world
    assume run: "main_loop w1 s a i NaN values [] = (res, w')"
    have reqs: "\<exists>n\<le>length values.
           (values \<noteq> [] \<longrightarrow> 1 \<le> n) \<and> (\<forall>rows. res = Inr rows \<longrightarrow> n = length values) \<and>
           sent w' = sent w1 @ map (query_request a i) (take n values)"
    proof (cases res)
      case (Inl e)
      from main_loop_sent[OF run] obtain n where
        "n \<le> length values" "values \<noteq> [] \<longrightarrow> 1 \<le> n"
        "w' = w1\<lparr>sent := sent w1 @ map (query_request a i) (take n values)\<rparr>"
        by blast
      with Inl show ?thesis by (intro exI[of _ n]) simp
    next
      case (Inr rows)
      with run have "main_loop w1 s a i NaN values [] = (Inr rows, w')" by simp
      from main_loop_Inr[OF this]
      have "w' = w1\<lparr>sent := sent w1 @ map (query_request a i) values\<rparr>" by blast
      then show ?thesis by (intro exI[of _ "length values"]) (cases "values"; simp)
    qed
    have recs: "\<forall>rows. res = Inr rows \<longrightarrow>
           length values \<le> length rows \<and>
           (\<forall>row\<in>set rows. map_of row ''wi'' = Some (PInt i) \<and>
                            map_of row ''wavelength_A'' = Some (PFloat NaN)) \<and>
           (\<forall>k<length values. \<exists>row\<in>set rows.
              map_of row ''input_value'' = Some (PFloat (values ! k)))"
    proof (intro allI impI)
    fix rows
    assume "res = Inr rows"
    with run have run': "main_loop w1 s a i NaN values [] = (Inr rows, w')" by simp
    from main_loop_Inr[OF run'] obtain segs where
      len: "length segs = length values" and rs: "rows = concat segs" and
      vr: "\<forall>k<length values. value_rows a i NaN (values ! k)
              (server w1 (length (sent w1) + k) (query_request a i (values ! k)))
              (\<lambda>place. output_raises w1 place (Suc (length (sent w1) + k))) = Inr (segs ! k)"
      by auto
    have ctx: "segs ! k \<noteq> [] \<and>
         (\<forall>row\<in>set (segs ! k). map_of row ''wi'' = Some (PInt i) \<and>
                                map_of row ''wavelength_A'' = Some (PFloat NaN) \<and>
                                map_of row ''input_value'' = Some (PFloat (values ! k)))"
      if "k < length values" for k
    proof -
      from vr that have "value_rows a i NaN (values ! k)
              (server w1 (length (sent w1) + k) (query_request a i (values ! k)))
              (\<lambda>place. output_raises w1 place (Suc (length (sent w1) + k))) = Inr (segs ! k)"
        by blast
      from value_rows_context[OF this] show ?thesis by blast
    qed
    have cl: "length segs \<le> length (concat segs)" if "\<forall>seg\<in>set segs. seg \<noteq> []"
      for segs :: "pydict list list"
      using that
    proof (induction segs)
      case Nil
      then show ?case by simp
    next
      case (Cons seg segs)
      then have "seg \<noteq> []" and "length segs \<le> length (concat segs)" by simp_all
      then show ?case by (cases seg) simp_all
    qed
    have "\<forall>seg\<in>set segs. seg \<noteq> []"
      using ctx len by (auto simp: in_set_conv_nth)
    from cl[OF this] have b1: "length values \<le> length rows" using len rs by simp
    have b2: "\<forall>row\<in>set rows. map_of row ''wi'' = Some (PInt i) \<and>
                            map_of row ''wavelength_A'' = Some (PFloat NaN)"
    proof
      fix row assume "row \<in> set rows"
      with rs obtain seg where "seg \<in> set segs" "row \<in> set seg" by auto
      then obtain k where "k < length segs" "row \<in> set (segs ! k)"
        by (auto simp: in_set_conv_nth)
      with ctx[of k] len
      show "map_of row ''wi'' = Some (PInt i) \<and> map_of row ''wavelength_A'' = Some (PFloat NaN)"
        by simp
    qed
    have b3: "\<forall>k<length values. \<exists>row\<in>set rows.
              map_of row ''input_value'' = Some (PFloat (values ! k))"
    proof (intro allI impI)
      fix k assume k: "k < length values"
      from ctx[OF k] obtain row where
        row: "row \<in> set (segs ! k)" "map_of row ''input_value'' = Some (PFloat (values ! k))"
        by (cases "segs ! k") auto
      from k len have "segs ! k \<in> set segs" by simp
      with row(1) rs have "row \<in> set rows" by auto
      with row(2) show "\<exists>row\<in>set rows. map_of row ''input_value'' = Some (PFloat (values ! k))"
        by blast
    qed
    from b1 b2 b3 show "length values \<le> length rows \<and>
           (\<forall>row\<in>set rows. map_of row ''wi'' = Some (PInt i) \<and>
                            map_of row ''wavelength_A'' = Some (PFloat NaN)) \<and>
           (\<forall>k<length values. \<exists>row\<in>set rows.
              map_of row ''input_value'' = Some (PFloat (values ! k)))"
      by (intro conjI)
    qed
    from reqs recs show "(\<exists>n\<le>length values.
           (values \<noteq> [] \<longrightarrow> 1 \<le> n) \<and> (\<forall>rows. res = Inr rows \<longrightarrow> n = length values) \<and>
           sent w' = sent w1 @ map (query_request a i) (take n values)) \<and>
        (\<forall>rows. res = Inr rows \<longrightarrow>
           length values \<le> length rows \<and>
           (\<forall>row\<in>set rows. map_of row ''wi'' = Some (PInt i) \<and>
                            map_of row ''wavelength_A'' = Some (PFloat NaN)) \<and>
           (\<forall>k<length values. \<exists>row\<in>set rows.
              map_of row ''input_value'' = Some (PFloat (values ! k))))"
      by (rule conjI)
  qed
  have mainp: "\<forall>dh. s = make_session dh \<and> values \<noteq> [] \<longrightarrow>
        fst (main w dh a values) =
          (case header_prints w1 a of
             Some (cls, msg) \<Rightarrow> Terminated (Exc cls msg)
           | None \<Rightarrow>
               (case fst (main_loop w1 s a i NaN values []) of
                  Inl e \<Rightarrow> Terminated e
                | Inr rows \<Rightarrow> Finished (write_csv rows (arg_out a))))"
    using res assms(1,2) by (auto simp: main_cases read_values_def)
  have fin: "\<forall>dh. s = make_session dh \<and> values \<noteq> [] \<and>
           (\<forall>k<length values. \<forall>r.
              server w1 (length (sent w1) + k) (query_request a i (values ! k)) = Inr r \<longrightarrow>
              (400 \<le> status_code r \<and> status_code r < 600) \<or> find_pre (soup r) \<noteq> None) \<and>
           sleep_raises w1 (arg_sleep a) = None \<and>
           (arg_quiet a \<or> (\<forall>place n. output_raises w1 place n = None)) \<longrightarrow>
        (\<exists>rows. fst (main w dh a values) = Finished (write_csv rows (arg_out a)) \<and>
                length rows = length values \<and>
                (\<forall>k<length values.
                   map_of (rows ! k) ''wi'' = Some (PInt i) \<and>
                   map_of (rows ! k) ''wavelength_A'' = Some (PFloat NaN) \<and>
                   map_of (rows ! k) ''input_value'' = Some (PFloat (values ! k))))"
  proof (intro allI impI)
    fix dh
    assume h: "s = make_session dh \<and> values \<noteq> [] \<and>
           (\<forall>k<length values. \<forall>r.
              server w1 (length (sent w1) + k) (query_request a i (values ! k)) = Inr r \<longrightarrow>
              (400 \<le> status_code r \<and> status_code r < 600) \<or> find_pre (soup r) \<noteq> None) \<and>
           sleep_raises w1 (arg_sleep a) = None \<and>
           (arg_quiet a \<or> (\<forall>place n. output_raises w1 place n = None))"
    then have s: "s = make_session dh \<and> values \<noteq> []"
      and pre: "\<forall>k<length values. \<forall>r.
              server w1 (length (sent w1) + k) (query_request a i (values ! k)) = Inr r \<longrightarrow>
              (400 \<le> status_code r \<and> status_code r < 600) \<or> find_pre (soup r) \<noteq> None"
      and sl: "sleep_raises w1 (arg_sleep a) = None"
      and out: "arg_quiet a \<or> (\<forall>place n. output_raises w1 place n = None)"
      by blast+
    have h1: "\<forall>k<length values. \<forall>e.
       query_outcome (arg_mode a) (output_raises w1 StderrNoPre (Suc (length (sent w1) + k)))
         (server w1 (length (sent w1) + k) (query_request a i (values ! k))) = Inl e
       \<longrightarrow> is_Exception e"
    proof (intro allI impI)
      fix k e
      assume k: "k < length values" and
        e: "query_outcome (arg_mode a) (output_raises w1 StderrNoPre (Suc (length (sent w1) + k)))
              (server w1 (length (sent w1) + k) (query_request a i (values ! k))) = Inl e"
      from query_outcome_Inl[OF e] pre k show "is_Exception e" by blast
    qed
    from out have h2: "arg_quiet a \<or>
         (\<forall>n. output_raises w1 PrintDone n = None \<and> output_raises w1 PrintError n = None)"
      and o: "arg_quiet a \<or> (\<forall>n. output_raises w1 PrintDone n = None)"
      by auto
    from main_loop_one_row_per_value[OF h1 h2, of s NaN, THEN conjunct1] sl
    obtain rows and w' :: world where
      run: "main_loop w1 s a i NaN values [] = (Inr rows, w')" by blast
    from main_loop_single[OF run o] have
      len: "length rows = length values" and
      vr: "\<forall>k<length values. value_rows a i NaN (values ! k)
              (server w1 (length (sent w1) + k) (query_request a i (values ! k)))
              (\<lambda>place. output_raises w1 place (Suc (length (sent w1) + k))) = Inr [rows ! k]"
      by blast+
    have ctx: "\<forall>k<length values.
                   map_of (rows ! k) ''wi'' = Some (PInt i) \<and>
                   map_of (rows ! k) ''wavelength_A'' = Some (PFloat NaN) \<and>
                   map_of (rows ! k) ''input_value'' = Some (PFloat (values ! k))"
    proof (intro allI impI)
      fix k assume "k < length values"
      with vr have "value_rows a i NaN (values ! k)
              (server w1 (length (sent w1) + k) (query_request a i (values ! k)))
              (\<lambda>place. output_raises w1 place (Suc (length (sent w1) + k))) = Inr [rows ! k]"
        by blast
      from value_rows_context[OF this]
      show "map_of (rows ! k) ''wi'' = Some (PInt i) \<and>
            map_of (rows ! k) ''wavelength_A'' = Some (PFloat NaN) \<and>
            map_of (rows ! k) ''input_value'' = Some (PFloat (values ! k))"
        by simp
    qed
    from mainp s have "fst (main w dh a values) =
          (case header_prints w1 a of
             Some (cls, msg) \<Rightarrow> Terminated (Exc cls msg)
           | None \<Rightarrow>
               (case fst (main_loop w1 s a i NaN values []) of
                  Inl e \<Rightarrow> Terminated e
                | Inr rows \<Rightarrow> Finished (write_csv rows (arg_out a))))"
      by blast
    with header_prints_None[OF out] run
    have "fst (main w dh a values) = Finished (write_csv rows (arg_out a))" by simp
    with len ctx
    show "\<exists>rows. fst (main w dh a values) = Finished (write_csv rows (arg_out a)) \<and>
                length rows = length values \<and>
                (\<forall>k<length values.
                   map_of (rows ! k) ''wi'' = Some (PInt i) \<and>
                   map_of (rows ! k) ''wavelength_A'' = Some (PFloat NaN) \<and>
                   map_of (rows ! k) ''input_value'' = Some (PFloat (values ! k)))"
      by blast
  qed
  from res loop[unfolded q] mainp fin show ?thesis by (intro conjI)
qed

lemma example_fetch_results:
  "fst (fetch_available_lines (example_world (\<lambda>n. Inr (example_page (Some ''8.5 8.25 -0.25''))))
          (make_session []) ''O'') =
     Inr [(3, Finite (15543 / 2), ''7771.5''), (4, Finite (31097 / 4), ''7774.25'')]"
  by code_simp

lemma example_main_unknown_wi:
  "fst (main (example_world (\<lambda>n. Inr (example_page (Some ''8.5 8.25 -0.25'')))) [] example_args
          [Finite 1, Finite 2]) =
     Finished
       (Some \<lparr>csv_path = None,
              fieldnames = [''mode'', ''element'', ''wi'', ''wavelength_A'', ''Teff'', ''logg'',
                            ''FeH'', ''vt'', ''input_value'', ''A_LTE'', ''A_NLTE'', ''Delta''],
              records =
                [[Some (PStr ''lte''), Some (PStr ''O''), Some (PInt 7), Some (PFloat NaN),
                  Some (PFloat (Finite 5777)), Some (PFloat (Finite 4)), Some (PFloat (Finite 0)),
                  Some (PFloat (Finite 1)), Some (PFloat (Finite 1)),
                  Some (PFloat (Finite (17 / 2))), Some (PFloat (Finite (33 / 4))),
                  Some (PFloat (Finite (- 1 / 4)))],
                 [Some (PStr ''lte''), Some (PStr ''O''), Some (PInt 7), Some (PFloat NaN),
                  Some (PFloat (Finite 5777)), Some (PFloat (Finite 4)), Some (PFloat (Finite 0)),
                  Some (PFloat (Finite 1)), Some (PFloat (Finite 2)),
                  Some (PFloat (Finite (17 / 2))), Some (PFloat (Finite (33 / 4))),
                  Some (PFloat (Finite (- 1 / 4)))]]\<rparr>)"
  by code_simp

lemma example_main_unknown_wi_sent:
  "sent (snd (main (example_world (\<lambda>n. Inr (example_page (Some ''8.5 8.25 -0.25'')))) []
                example_args [Finite 1, Finite 2])) =
     [\<lparr>req_method = ''GET'',
       req_url = ''https://www.inspect-stars.com/nonlte_from_lte?element_name=O'',
       req_params = [], req_timeout = 20\<rparr>,
      \<lparr>req_method = ''GET'', req_url = ''https://www.inspect-stars.com/nonlte_from_lte'',
       req_params = [(''element_name'', Lit ''O''), (''A_lte'', FormatG (Finite 1)),
                     (''t'', FormatG (Finite 5777)), (''g'', FormatG (Finite 4)),
                     (''f'', FormatG (Finite 0)), (''x'', FormatG (Finite 1)), (''wi'', StrOf 7)],
       req_timeout = 30\<rparr>,
      \<lparr>req_method = ''GET'', req_url = ''https://www.inspect-stars.com/nonlte_from_lte'',
       req_params = [(''element_name'', Lit ''O''), (''A_lte'', FormatG (Finite 2)),
                     (''t'', FormatG (Finite 5777)), (''g'', FormatG (Finite 4)),
                     (''f'', FormatG (Finite 0)), (''x'', FormatG (Finite 1)), (''wi'', StrOf 7)],
       req_timeout = 30\<rparr>]"
  by code_simp

theorem unknown_wi_not_validated_witness:
  "arg_wavelength example_args = None \<and> arg_wi example_args = Some 7 \<and>
   fst (fetch_available_lines (example_world (\<lambda>n. Inr (example_page (Some ''8.5 8.25 -0.25''))))
          (make_session []) (arg_element example_args)) =
     Inr [(3, Finite (15543 / 2), ''7771.5''), (4, Finite (31097 / 4), ''7774.25'')] \<and>
   (7 :: int) \<notin> fst ` set [(3, Finite (15543 / 2), ''7771.5''), (4, Finite (31097 / 4), ''7774.25'')] \<and>
   fst (resolve_wi (example_world (\<lambda>n. Inr (example_page (Some ''8.5 8.25 -0.25''))))
          (make_session []) example_args) = Inr (7, NaN) \<and>
   (\<exists>rows. fst (main (example_world (\<lambda>n. Inr (example_page (Some ''8.5 8.25 -0.25'')))) []
                   example_args [Finite 1, Finite 2]) =
             Finished (write_csv rows (arg_out example_args)) \<and>
           length rows = 2 \<and>
           map_of (rows ! 0) ''wi'' = Some (PInt 7) \<and>
           map_of (rows ! 0) ''wavelength_A'' = Some (PFloat NaN) \<and>
           map_of (rows ! 0) ''input_value'' = Some (PFloat (Finite 1)) \<and>
           map_of (rows ! 1) ''wi'' = Some (PInt 7) \<and>
           map_of (rows ! 1) ''wavelength_A'' = Some (PFloat NaN) \<and>
           map_of (rows ! 1) ''input_value'' = Some (PFloat (Finite 2))) \<and>
   fst (main (example_world (\<lambda>n. Inr (example_page (Some ''8.5 8.25 -0.25'')))) [] example_args
          [Finite 1, Finite 2]) =
     Finished
       (Some \<lparr>csv_path = None,
              fieldnames = [''mode'', ''element'', ''wi'', ''wavelength_A'', ''Teff'', ''logg'',
                            ''FeH'', ''vt'', ''input_value'', ''A_LTE'', ''A_NLTE'', ''Delta''],
              records =
                [[Some (PStr ''lte''), Some (PStr ''O''), Some (PInt 7), Some (PFloat NaN),
                  Some (PFloat (Finite 5777)), Some (PFloat (Finite 4)), Some (PFloat (Finite 0)),
                  Some (PFloat (Finite 1)), Some (PFloat (Finite 1)),
                  Some (PFloat (Finite (17 / 2))), Some (PFloat (Finite (33 / 4))),
                  Some (PFloat (Finite (- 1 / 4)))],
                 [Some (PStr ''lte''), Some (PStr ''O''), Some (PInt 7), Some (PFloat NaN),
                  Some (PFloat (Finite 5777)), Some (PFloat (Finite 4)), Some (PFloat (Finite 0)),
                  Some (PFloat (Finite 1)), Some (PFloat (Finite 2)),
                  Some (PFloat (Finite (17 / 2))), Some (PFloat (Finite (33 / 4))),
                  Some (PFloat (Finite (- 1 / 4)))]]\<rparr>) \<and>
   sent (snd (main (example_world (\<lambda>n. Inr (example_page (Some ''8.5 8.25 -0.25'')))) []
                example_args [Finite 1, Finite 2])) =
     [\<lparr>req_method = ''GET'',
       req_url = ''https://www.inspect-stars.com/nonlte_from_lte?element_name=O'',
       req_params = [], req_timeout = 20\<rparr>,
      \<lparr>req_method = ''GET'', req_url = ''https://www.inspect-stars.com/nonlte_from_lte'',
       req_params = [(''element_name'', Lit ''O''), (''A_lte'', FormatG (Finite 1)),
                     (''t'', FormatG (Finite 5777)), (''g'', FormatG (Finite 4)),
                     (''f'', FormatG (Finite 0)), (''x'', FormatG (Finite 1)), (''wi'', StrOf 7)],
       req_timeout = 30\<rparr>,
      \<lparr>req_method = ''GET'', req_url = ''https://www.inspect-stars.com/nonlte_from_lte'',
       req_params = [(''element_name'', Lit ''O''), (''A_lte'', FormatG (Finite 2)),
                     (''t'', FormatG (Finite 5777)), (''g'', FormatG (Finite 4)),
                     (''f'', FormatG (Finite 0)), (''x'', FormatG (Finite 1)), (''wi'', StrOf 7)],
       req_timeout = 30\<rparr>]"
proof -
  let ?W = "example_world (\<lambda>n. Inr (example_page (Some ''8.5 8.25 -0.25'')))"
  let ?w1 = "snd (fetch_available_lines ?W (make_session []) (arg_element example_args))"
  let ?lines = "[(3 :: int, Finite (15543 / 2), ''7771.5''), (4, Finite (31097 / 4), ''7774.25'')]"
  have el: "arg_element example_args = ''O''" by (simp add: example_args_def)
  have h1: "arg_wavelength example_args = None" by (simp add: example_args_def)
  have h2: "arg_wi example_args = Some 7" by (simp add: example_args_def)
  have f: "fst (fetch_available_lines ?W (make_session []) (arg_element example_args)) = Inr ?lines"
    using example_fetch_results by (simp add: el)
  then have h3: "fetch_available_lines ?W (make_session []) (arg_element example_args) =
      (Inr ?lines, ?w1)"
    by (simp add: prod_eq_iff)
  have h4: "(7 :: int) \<notin> fst ` set ?lines" by simp
  from fetch_available_lines_world[OF h3] have
    w1: "server ?w1 = server ?W" "sleep_raises ?w1 = sleep_raises ?W"
        "output_raises ?w1 = output_raises ?W"
    by blast+
  note inst = unknown_wi_not_validated[OF h1 h2 h3 h4, of "[Finite 1, Finite 2]"]
  from inst have r: "fst (resolve_wi ?W (make_session []) example_args) = Inr (7, NaN)" by simp
  have hyp: "make_session [] = make_session [] \<and> [Finite 1, Finite 2 :: pyfloat] \<noteq> [] \<and>
           (\<forall>k<length [Finite 1, Finite 2 :: pyfloat]. \<forall>r.
              server ?w1 (length (sent ?w1) + k)
                (query_request example_args 7 ([Finite 1, Finite 2] ! k)) = Inr r \<longrightarrow>
              (400 \<le> status_code r \<and> status_code r < 600) \<or> find_pre (soup r) \<noteq> None) \<and>
           sleep_raises ?w1 (arg_sleep example_args) = None \<and>
           (arg_quiet example_args \<or> (\<forall>place n. output_raises ?w1 place n = None))"
    by (simp only: w1) (auto simp: example_world_simps example_page_def)
  from inst[THEN conjunct2, THEN conjunct2, THEN conjunct2, rule_format, OF hyp]
  obtain rows0 where
    m: "fst (main ?W [] example_args [Finite 1, Finite 2]) =
          Finished (write_csv rows0 (arg_out example_args))" and
    l: "length rows0 = length [Finite 1, Finite 2 :: pyfloat]" and
    c: "\<forall>k<length [Finite 1, Finite 2 :: pyfloat].
          map_of (rows0 ! k) ''wi'' = Some (PInt 7) \<and>
          map_of (rows0 ! k) ''wavelength_A'' = Some (PFloat NaN) \<and>
          map_of (rows0 ! k) ''input_value'' = Some (PFloat ([Finite 1, Finite 2] ! k))"
    by blast
  from c[rule_format, of 0] c[rule_format, of 1] m l
  have "\<exists>rows. fst (main ?W [] example_args [Finite 1, Finite 2]) =
             Finished (write_csv rows (arg_out example_args)) \<and>
           length rows = 2 \<and>
           map_of (rows ! 0) ''wi'' = Some (PInt 7) \<and>
           map_of (rows ! 0) ''wavelength_A'' = Some (PFloat NaN) \<and>
           map_of (rows ! 0) ''input_value'' = Some (PFloat (Finite 1)) \<and>
           map_of (rows ! 1) ''wi'' = Some (PInt 7) \<and>
           map_of (rows ! 1) ''wavelength_A'' = Some (PFloat NaN) \<and>
           map_of (rows ! 1) ''input_value'' = Some (PFloat (Finite 2))"
    by (intro exI[of _ rows0]) simp
  with h1 h2 f h4 r example_main_unknown_wi example_main_unknown_wi_sent
  show ?thesis by (intro conjI)
qed

end
